theory Spec2Isabelle
  imports Complex_Main "HOL-Library.Word" "HOL-Library.Sublist"
begin

section \<open>JavaScript strings and \<open>utils.ts\<close>\<close>

text \<open>
  A JavaScript string is a sequence of UTF-16 code units. \<open>js\<close> embeds an ASCII literal.
\<close>

type_synonym jsstring = "16 word list"

definition js :: "string \<Rightarrow> jsstring" where
  "js s = map (\<lambda>c. of_nat (of_char c)) s"

definition nl :: "16 word" where
  "nl = 0x000A"

definition sp :: "16 word" where
  "sp = 0x0020"

text \<open>
  \<open>String.prototype.trim\<close> removes the code units that ECMAScript calls WhiteSpace or
  LineTerminator from both ends.
\<close>

definition is_ws :: "16 word \<Rightarrow> bool" where
  "is_ws c = (c = 0x0009 \<or> c = 0x000A \<or> c = 0x000B \<or> c = 0x000C \<or> c = 0x000D
     \<or> c = 0x0020 \<or> c = 0x00A0 \<or> c = 0x1680 \<or> (0x2000 \<le> c \<and> c \<le> 0x200A)
     \<or> c = 0x2028 \<or> c = 0x2029 \<or> c = 0x202F \<or> c = 0x205F \<or> c = 0x3000 \<or> c = 0xFEFF)"

definition trim :: "jsstring \<Rightarrow> jsstring" where
  "trim s = rev (dropWhile is_ws (rev (dropWhile is_ws s)))"

text \<open>\<open>s.replaceAll("\n", " ")\<close>: pattern and replacement are one code unit each.\<close>

definition replaceAll_nl_sp :: "jsstring \<Rightarrow> jsstring" where
  "replaceAll_nl_sp s = map (\<lambda>c. if c = nl then sp else c) s"

text \<open>\<open>utils.ts\<close>, \<open>sanitizeQuestion\<close>: \<open>question.trim().replaceAll("\n", " ")\<close>.\<close>

definition sanitizeQuestion :: "jsstring \<Rightarrow> jsstring" where
  "sanitizeQuestion question = replaceAll_nl_sp (trim question)"

text \<open>\<open>Array.prototype.join\<close> on an array of strings.\<close>

fun join :: "jsstring \<Rightarrow> jsstring list \<Rightarrow> jsstring" where
  "join sep [] = []"
| "join sep [x] = x"
| "join sep (x # y # ys) = x @ sep @ join sep (y # ys)"

text \<open>\<open>utils.ts\<close>, \<open>formatFacts\<close>: \<open>facts.join("\n")\<close>.\<close>

definition formatFacts :: "jsstring list \<Rightarrow> jsstring" where
  "formatFacts facts = join [nl] facts"

section \<open>Objects with optional properties\<close>

text \<open>
  A property of an object literal is absent, present holding \<open>undefined\<close>, or present
  holding a value. Reading it (\<open>get\<close>) cannot tell the first two apart; spreading the object
  over another one can: a present property overwrites, whatever it holds.
\<close>

datatype 'a field = Missing | Undefined | Value 'a

fun get :: "'a field \<Rightarrow> 'a option" where
  "get Missing = None"
| "get Undefined = None"
| "get (Value v) = Some v"

text \<open>The property \<open>k: e\<close> of an object literal: always present.\<close>

fun explicit :: "'a option \<Rightarrow> 'a field" where
  "explicit None = Undefined"
| "explicit (Some v) = Value v"

text \<open>\<open>a ?? b\<close>.\<close>

fun orElse :: "'a option \<Rightarrow> 'a option \<Rightarrow> 'a option" where
  "orElse (Some v) b = Some v"
| "orElse None b = b"

text \<open>One property of \<open>{...a, ...b}\<close>.\<close>

fun spread :: "'a field \<Rightarrow> 'a field \<Rightarrow> 'a field" where
  "spread a Missing = a"
| "spread a Undefined = Undefined"
| "spread a (Value v) = Value v"

section \<open>Data model\<close>

type_synonym metadata = "(jsstring \<times> jsstring) list"

text \<open>\<open>PromptParameters\<close>; the field \<open>context\<close> is written \<open>context_text\<close>.\<close>

record prompt_parameters =
  chatHistory :: "jsstring option"
  question :: jsstring
  context_text :: jsstring

type_synonym custom_prompt = "prompt_parameters \<Rightarrow> jsstring"

datatype role = User | Assistant

text \<open>
  A message as \<open>chat\<close> writes and reads it. The identifier the store attaches to a stored
  message is never read by \<open>chat\<close> and is left out. A message object is held by value.
\<close>

record message =
  content :: jsstring
  role :: role
  msg_metadata :: "metadata option"

record ratelimit_response =
  success :: bool
  reset :: "int option"

datatype error =
    UpstashVectorError jsstring
  | UpstashError jsstring
  | RatelimitUpstashError jsstring jsstring "int option"
  | TypeError
  | CollaboratorError jsstring

text \<open>
  \<open>ConfigurationError\<close> is the specification's name for the two errors the constructor
  throws.
\<close>

fun isConfigurationError :: "error \<Rightarrow> bool" where
  "isConfigurationError (UpstashVectorError m) = True"
| "isConfigurationError (UpstashError m) = True"
| "isConfigurationError e = False"

text \<open>
  The caller's hooks. \<open>ratelimitDetails\<close> is the caller's code run on the response object
  of the rate limiter: it throws, or it returns and leaves the object holding a response,
  the same or another.

  \<open>onChunk\<close> and \<open>onContextFetched\<close> are called by services that are not among the
  sources: each is an opaque handle.

  \<open>onChatHistoryFetched\<close> receives an array it may mutate and may return an array: it maps
  the contents of its argument to the contents the argument holds afterwards, and to what it
  returns: nothing (\<open>undefined\<close> or \<open>null\<close>), the very array it was given, or another array.
\<close>

type_synonym callback = nat

type_synonym ratelimit_hook = "ratelimit_response \<Rightarrow> error + ratelimit_response"

datatype hook_return = ReturnsNothing | ReturnsArgument | ReturnsArray "message list"

type_synonym history_hook = "message list \<Rightarrow> message list \<times> hook_return"

text \<open>\<open>Partial<ChatOptions>\<close>, and the object \<open>appendDefaultsIfNeeded\<close> returns.\<close>

record chat_options =
  streaming :: "bool field"
  metadata :: "metadata field"
  disableRAG :: "bool field"
  sessionId :: "jsstring field"
  ratelimitSessionId :: "jsstring field"
  similarityThreshold :: "rat field"
  topK :: "nat field"
  historyLength :: "nat field"
  historyTTL :: "nat field"
  namespace :: "jsstring field"
  promptFn :: "custom_prompt field"
  ratelimitDetails :: "ratelimit_hook field"
  onChunk :: "callback field"
  onContextFetched :: "callback field"
  onChatHistoryFetched :: "history_hook field"

text \<open>The object \<open>{}\<close>, which spreading \<open>undefined\<close> also gives.\<close>

definition no_options :: chat_options where
  "no_options = \<lparr>streaming = Missing, metadata = Missing, disableRAG = Missing,
     sessionId = Missing, ratelimitSessionId = Missing, similarityThreshold = Missing,
     topK = Missing, historyLength = Missing, historyTTL = Missing, namespace = Missing,
     promptFn = Missing, ratelimitDetails = Missing, onChunk = Missing,
     onContextFetched = Missing, onChatHistoryFetched = Missing\<rparr>"

text \<open>
  The module \<open>./constants\<close> is not among the sources: its values are a parameter.
\<close>

record constants =
  DEFAULT_CHAT_SESSION_ID :: jsstring
  DEFAULT_CHAT_RATELIMIT_SESSION_ID :: jsstring
  DEFAULT_SIMILARITY_THRESHOLD :: rat
  DEFAULT_TOP_K :: nat
  DEFAULT_HISTORY_LENGTH :: nat
  DEFAULT_HISTORY_TTL :: nat
  DEFAULT_NAMESPACE :: jsstring
  DEFAULT_PROMPT_WITHOUT_RAG :: custom_prompt

text \<open>
  The external services, by what they answer: the rate limiter on a session, the vector
  index on a question (the facts), the language model on a prompt (the chunks of its
  output). Each may fail.
\<close>

type_synonym limiter = "jsstring option \<Rightarrow> error + ratelimit_response"

type_synonym vector_index = "jsstring \<Rightarrow> error + jsstring list"

type_synonym language_model = "jsstring \<Rightarrow> error + jsstring list"

text \<open>
  The \<open>Config\<close> object the constructor builds first. The class is not among the sources;
  the constructor and \<open>getOptionsWithDefaults\<close> read these properties of it, and the
  constructor's \<open>this.config.namespace ?? DEFAULT_NAMESPACE\<close> and its two checks show that a
  property may be undefined.
\<close>

record config =
  cfg_vector :: "vector_index option"
  cfg_model :: "language_model option"
  cfg_ratelimit :: "limiter option"
  cfg_namespace :: "jsstring option"
  cfg_metadata :: "metadata option"
  cfg_streaming :: "bool option"
  cfg_sessionId :: "jsstring option"
  cfg_ratelimitSessionId :: "jsstring option"
  cfg_prompt :: "custom_prompt option"
  cfg_debug :: bool

section \<open>The observable world\<close>

datatype service =
  Database | HistoryService | LLMService | ContextService | ChatLogger | RateLimitService

datatype log_call =
    LogError error
  | EndLLMResponse jsstring
  | StartRetrieveHistory
  | EndRetrieveHistory "message list"
  | LogRetrieveFormatHistory jsstring
  | LogFinalPrompt jsstring

datatype event =
    Constructed service
  | CheckLimit "jsstring option"
  | RatelimitDetails ratelimit_response
  | AddMessage "jsstring option" message
  | GetContext jsstring
  | GetMessages "jsstring option" "nat option"
  | OnChatHistoryFetched "message list"
  | CallLLM jsstring
  | OnChunk callback jsstring
  | Debug log_call

text \<open>
  The history store is the log of the messages appended, each with its session, oldest
  first; the trace is the sequence of calls made on the services, the hooks and the logger.
\<close>

record world =
  history :: "(jsstring option \<times> message) list"
  trace :: "event list"

definition emit :: "event \<Rightarrow> world \<Rightarrow> world" where
  "emit e w = w\<lparr>trace := trace w @ [e]\<rparr>"

text \<open>The instance: the fields the constructor sets.\<close>

record ragchat =
  rc_ratelimit :: "limiter option"
  rc_llm :: language_model
  rc_vector :: vector_index
  rc_namespace :: jsstring
  rc_config :: config
  rc_debug :: bool

text \<open>
  \<open>this.debug?.m(...)\<close>: a call on the logger when there is one. The class
  \<open>ChatLogger\<close> is not among the sources: a call on it is an event of the trace.
\<close>

definition debug :: "ragchat \<Rightarrow> log_call \<Rightarrow> world \<Rightarrow> world" where
  "debug rc c w = (if rc_debug rc then emit (Debug c) w else w)"

section \<open>\<open>utils.ts\<close>: \<open>appendDefaultsIfNeeded\<close>\<close>

text \<open>
  The object literal lists ten defaults and then spreads \<open>options\<close> over them; a property
  with no default is the one of \<open>options\<close>.
\<close>

definition appendDefaultsIfNeeded :: "constants \<Rightarrow> chat_options option \<Rightarrow> chat_options" where
  "appendDefaultsIfNeeded K options =
     (let opts = (case options of None \<Rightarrow> no_options | Some x \<Rightarrow> x) in
      \<lparr>streaming = spread (Value False) (streaming opts),
       metadata = spread (Value []) (metadata opts),
       disableRAG = spread (Value False) (disableRAG opts),
       sessionId = spread (Value (DEFAULT_CHAT_SESSION_ID K)) (sessionId opts),
       ratelimitSessionId =
         spread (Value (DEFAULT_CHAT_RATELIMIT_SESSION_ID K)) (ratelimitSessionId opts),
       similarityThreshold =
         spread (Value (DEFAULT_SIMILARITY_THRESHOLD K)) (similarityThreshold opts),
       topK = spread (Value (DEFAULT_TOP_K K)) (topK opts),
       historyLength = spread (Value (DEFAULT_HISTORY_LENGTH K)) (historyLength opts),
       historyTTL = spread (Value (DEFAULT_HISTORY_TTL K)) (historyTTL opts),
       namespace = spread (Value (DEFAULT_NAMESPACE K)) (namespace opts),
       promptFn = promptFn opts,
       ratelimitDetails = ratelimitDetails opts,
       onChunk = onChunk opts,
       onContextFetched = onContextFetched opts,
       onChatHistoryFetched = onChatHistoryFetched opts\<rparr>)"

section \<open>The class \<open>RAGChat\<close>\<close>

subsection \<open>The constructor\<close>

text \<open>
  The two checks come first; the services are constructed after them, in the order of the
  source. \<open>new Config(config)\<close> has run before: its result is the argument.
\<close>

definition constructor :: "constants \<Rightarrow> config \<Rightarrow> world \<Rightarrow> (error + ragchat) \<times> world" where
  "constructor K cfg w =
     (case cfg_vector cfg of
        None \<Rightarrow> (Inl (UpstashVectorError (js ''Vector can not be undefined!'')), w)
      | Some vector \<Rightarrow>
          (case cfg_model cfg of
             None \<Rightarrow> (Inl (UpstashError (js ''Model can not be undefined!'')), w)
           | Some model \<Rightarrow>
               (let w1 = emit (Constructed Database) w;
                    w2 = emit (Constructed HistoryService) w1;
                    w3 = emit (Constructed LLMService) w2;
                    w4 = emit (Constructed ContextService) w3;
                    w5 = (if cfg_debug cfg then emit (Constructed ChatLogger) w4 else w4);
                    w6 = emit (Constructed RateLimitService) w5
                in (Inr \<lparr>rc_ratelimit = cfg_ratelimit cfg,
                          rc_llm = model,
                          rc_vector = vector,
                          rc_namespace =
                            (case cfg_namespace cfg of
                               None \<Rightarrow> DEFAULT_NAMESPACE K | Some n \<Rightarrow> n),
                          rc_config = cfg,
                          rc_debug = cfg_debug cfg\<rparr>, w6))))"

subsection \<open>\<open>getOptionsWithDefaults\<close>\<close>

text \<open>
  \<open>options?.disableRAG && !options.promptFn\<close>, as a truth value: a function is truthy.
\<close>

definition isRagDisabledAndPromptFunctionMissing :: "chat_options option \<Rightarrow> bool" where
  "isRagDisabledAndPromptFunctionMissing options =
     (case options of
        None \<Rightarrow> False
      | Some x \<Rightarrow> get (disableRAG x) = Some True \<and> get (promptFn x) = None)"

definition getOptionsWithDefaults ::
  "constants \<Rightarrow> config \<Rightarrow> chat_options option \<Rightarrow> chat_options" where
  "getOptionsWithDefaults K cfg options =
     (let opts = (case options of None \<Rightarrow> no_options | Some x \<Rightarrow> x) in
      appendDefaultsIfNeeded K (Some (opts\<lparr>
        metadata := explicit (orElse (get (metadata opts)) (cfg_metadata cfg)),
        namespace := explicit (orElse (get (namespace opts)) (cfg_namespace cfg)),
        streaming := explicit (orElse (get (streaming opts)) (cfg_streaming cfg)),
        sessionId := explicit (orElse (get (sessionId opts)) (cfg_sessionId cfg)),
        ratelimitSessionId :=
          explicit (orElse (get (ratelimitSessionId opts)) (cfg_ratelimitSessionId cfg)),
        promptFn :=
          (if isRagDisabledAndPromptFunctionMissing options
           then Value (DEFAULT_PROMPT_WITHOUT_RAG K)
           else explicit (orElse (get (promptFn opts)) (cfg_prompt cfg)))\<rparr>)))"

subsection \<open>\<open>checkRatelimit\<close>\<close>

text \<open>
  Modelled from the spec: \<open>RateLimitService.checkLimit\<close> is not among the sources. With
  no limiter configured it answers success with no reset time; otherwise the limiter
  answers.
\<close>

definition checkLimit :: "limiter option \<Rightarrow> jsstring option \<Rightarrow> error + ratelimit_response" where
  "checkLimit ratelimit sid =
     (case ratelimit of
        None \<Rightarrow> Inr \<lparr>success = True, reset = None\<rparr>
      | Some l \<Rightarrow> l sid)"

text \<open>
  The hook runs on the response before \<open>success\<close> is read: what it throws ends the
  check, and the test reads the response as the hook left it.
\<close>

definition checkRatelimit :: "ragchat \<Rightarrow> chat_options \<Rightarrow> world \<Rightarrow> (error + unit) \<times> world" where
  "checkRatelimit rc optionsWithDefault w =
     (let w1 = emit (CheckLimit (get (ratelimitSessionId optionsWithDefault))) w in
      case checkLimit (rc_ratelimit rc) (get (ratelimitSessionId optionsWithDefault)) of
        Inl e \<Rightarrow> (Inl e, w1)
      | Inr ratelimitResponse \<Rightarrow>
          (let (called, w2) =
                 (case get (ratelimitDetails optionsWithDefault) of
                    None \<Rightarrow> (Inr ratelimitResponse, w1)
                  | Some f \<Rightarrow>
                      (f ratelimitResponse, emit (RatelimitDetails ratelimitResponse) w1))
           in case called of
                Inl e \<Rightarrow> (Inl e, w2)
              | Inr response \<Rightarrow>
                  if \<not> success response
                  then (Inl (RatelimitUpstashError
                               (js ''Couldn't process chat due to ratelimit.'')
                               (js ''ERR:USER_RATELIMITED'') (reset response)), w2)
                  else (Inr (), w2)))"

subsection \<open>The history store\<close>

text \<open>
  Modelled from the spec: \<open>HistoryService.addMessage\<close> is not among the sources. It
  appends the message to the log of its session.
\<close>

definition addMessage :: "jsstring option \<Rightarrow> message \<Rightarrow> world \<Rightarrow> world" where
  "addMessage sid m w = emit (AddMessage sid m) (w\<lparr>history := history w @ [(sid, m)]\<rparr>)"

text \<open>
  Modelled from the spec: the read order of the store, which is not among the sources. The
  messages of one session, newest first.
\<close>

definition newestFirst :: "(jsstring option \<times> message) list \<Rightarrow> jsstring option \<Rightarrow> message list" where
  "newestFirst h sid = rev (map snd (filter (\<lambda>p. fst p = sid) h))"

text \<open>
  Modelled from the spec: what \<open>HistoryService.getMessages\<close>, which is not among the
  sources, answers: the most recent \<open>amount\<close> messages of the session, newest first. An
  undefined \<open>amount\<close> sets no bound, as in \<open>Array.prototype.slice\<close>.
\<close>

definition readMessages ::
  "(jsstring option \<times> message) list \<Rightarrow> jsstring option \<Rightarrow> nat option \<Rightarrow> message list" where
  "readMessages h sid amount =
     (case amount of
        None \<Rightarrow> newestFirst h sid
      | Some n \<Rightarrow> take n (newestFirst h sid))"

text \<open>
  Modelled from the spec: \<open>HistoryService.getMessages\<close> is not among the sources. The
  call is an event of the trace; its answer is a fresh array.
\<close>

definition getMessages :: "jsstring option \<Rightarrow> nat option \<Rightarrow> world \<Rightarrow> message list \<times> world" where
  "getMessages sid amount w =
     (readMessages (history w) sid amount, emit (GetMessages sid amount) w)"

subsection \<open>\<open>addUserMessageToHistory\<close>\<close>

definition addUserMessageToHistory :: "jsstring \<Rightarrow> chat_options \<Rightarrow> world \<Rightarrow> world" where
  "addUserMessageToHistory input optionsWithDefault w =
     addMessage (get (sessionId optionsWithDefault))
       \<lparr>content = input, role = User, msg_metadata = None\<rparr> w"

subsection \<open>\<open>getChatHistory\<close>\<close>

text \<open>
  Arrays are mutable and shared by reference: an array lives at an address of a heap.
  \<open>structuredClone\<close> allocates a copy; \<open>Array.prototype.reverse\<close> reverses in place.
\<close>

record heap =
  cells :: "nat \<Rightarrow> message list"
  next_free :: nat

definition empty_heap :: heap where
  "empty_heap = \<lparr>cells = (\<lambda>a. []), next_free = 0\<rparr>"

definition alloc :: "message list \<Rightarrow> heap \<Rightarrow> nat \<times> heap" where
  "alloc v h = (next_free h, \<lparr>cells = (cells h)(next_free h := v), next_free = Suc (next_free h)\<rparr>)"

definition overwrite :: "nat \<Rightarrow> message list \<Rightarrow> heap \<Rightarrow> heap" where
  "overwrite a v h = h\<lparr>cells := (cells h)(a := v)\<rparr>"

definition structuredClone :: "nat \<Rightarrow> heap \<Rightarrow> nat \<times> heap" where
  "structuredClone a h = alloc (cells h a) h"

definition reverse :: "nat \<Rightarrow> heap \<Rightarrow> heap" where
  "reverse a h = overwrite a (rev (cells h a)) h"

text \<open>
  Calling the hook on the array at \<open>a\<close>: its mutations are written to \<open>a\<close>; an array it
  returns other than its argument is one more array of the heap.
\<close>

definition callHook :: "history_hook \<Rightarrow> nat \<Rightarrow> heap \<Rightarrow> nat option \<times> heap" where
  "callHook f a h =
     (let h1 = overwrite a (fst (f (cells h a))) h in
      case snd (f (cells h a)) of
        ReturnsNothing \<Rightarrow> (None, h1)
      | ReturnsArgument \<Rightarrow> (Some a, h1)
      | ReturnsArray v \<Rightarrow> (let (b, h2) = alloc v h1 in (Some b, h2)))"

text \<open>
  The first half of \<open>getChatHistory\<close>, up to \<open>endRetrieveHistory\<close>: the heap, and the
  addresses of \<open>originalChatHistory\<close>, \<open>clonedChatHistory\<close> and \<open>modifiedChatHistory\<close>.
\<close>

record fetched_history =
  fh_heap :: heap
  originalChatHistory :: nat
  clonedChatHistory :: nat
  modifiedChatHistory :: nat

definition fetchChatHistory :: "ragchat \<Rightarrow> chat_options \<Rightarrow> world \<Rightarrow> fetched_history \<times> world" where
  "fetchChatHistory rc optionsWithDefault w =
     (let w1 = debug rc StartRetrieveHistory w;
          (fetched, w2) = getMessages (get (sessionId optionsWithDefault))
                            (get (historyLength optionsWithDefault)) w1;
          (original, h1) = alloc fetched empty_heap;
          (cloned, h2) = structuredClone original h1;
          (returned, h3, w3) =
            (case get (onChatHistoryFetched optionsWithDefault) of
               None \<Rightarrow> (None, h2, w2)
             | Some f \<Rightarrow>
                 (let (r, h) = callHook f cloned h2
                  in (r, h, emit (OnChatHistoryFetched (cells h2 cloned)) w2)));
          modified = (case returned of None \<Rightarrow> original | Some a \<Rightarrow> a);
          w4 = debug rc (EndRetrieveHistory (cells h3 cloned)) w3
      in (\<lparr>fh_heap = h3, originalChatHistory = original, clonedChatHistory = cloned,
           modifiedChatHistory = modified\<rparr>, w4))"

definition formatMessage :: "message \<Rightarrow> jsstring" where
  "formatMessage m =
     (if role m = User then js ''USER MESSAGE: '' @ content m
      else js ''YOUR MESSAGE: '' @ content m)"

definition getChatHistory :: "ragchat \<Rightarrow> chat_options \<Rightarrow> world \<Rightarrow> jsstring \<times> world" where
  "getChatHistory rc optionsWithDefault w =
     (let (fh, w1) = fetchChatHistory rc optionsWithDefault w;
          h = reverse (modifiedChatHistory fh) (fh_heap fh);
          formattedHistory = join [nl] (map formatMessage (cells h (modifiedChatHistory fh)));
          w2 = debug rc (LogRetrieveFormatHistory formattedHistory) w1
      in (formattedHistory, w2))"

subsection \<open>Context retrieval\<close>

text \<open>
  Modelled from the spec: \<open>ContextService.getContext\<close> is not among the sources. Called
  with the resolved options and a question, it answers the empty string without a query
  when retrieval is disabled, and otherwise queries the vector index with the question it
  was given and joins the facts with newlines.
\<close>

definition getContext ::
  "ragchat \<Rightarrow> chat_options \<Rightarrow> jsstring \<Rightarrow> world \<Rightarrow> (error + jsstring) \<times> world" where
  "getContext rc optionsWithDefault q w =
     (let w1 = emit (GetContext q) w in
      if get (disableRAG optionsWithDefault) = Some True then (Inr [], w1)
      else (case rc_vector rc q of
              Inl e \<Rightarrow> (Inl e, w1)
            | Inr facts \<Rightarrow> (Inr (formatFacts facts), w1)))"

subsection \<open>\<open>generatePrompt\<close>\<close>

text \<open>Calling a property that is undefined throws a \<open>TypeError\<close>.\<close>

definition generatePrompt ::
  "ragchat \<Rightarrow> chat_options \<Rightarrow> jsstring \<Rightarrow> jsstring \<Rightarrow> jsstring \<Rightarrow> world
     \<Rightarrow> (error + jsstring) \<times> world" where
  "generatePrompt rc optionsWithDefault ctx q formattedHistory w =
     (case get (promptFn optionsWithDefault) of
        None \<Rightarrow> (Inl TypeError, w)
      | Some f \<Rightarrow>
          (let prompt = f \<lparr>chatHistory = Some formattedHistory, question = q,
                            context_text = ctx\<rparr>
           in (Inr prompt, debug rc (LogFinalPrompt prompt) w)))"

subsection \<open>The model call\<close>

text \<open>The \<open>onComplete\<close> function that \<open>chat\<close> hands to \<open>callLLM\<close>.\<close>

definition onComplete :: "ragchat \<Rightarrow> chat_options \<Rightarrow> jsstring \<Rightarrow> world \<Rightarrow> world" where
  "onComplete rc optionsWithDefault output w =
     addMessage (get (sessionId optionsWithDefault))
       \<lparr>content = output, role = Assistant,
        msg_metadata = get (metadata optionsWithDefault)\<rparr>
       (debug rc (EndLLMResponse output) w)"

text \<open>
  A stream still to be read: its chunks, and the lifecycle hooks that were handed to
  \<open>callLLM\<close> and that reading it fires.
\<close>

record text_stream =
  chunks :: "jsstring list"
  whenChunk :: "callback option"
  whenComplete :: "jsstring \<Rightarrow> world \<Rightarrow> world"

text \<open>\<open>{output, isStream}\<close>: a completed text, or a stream.\<close>

datatype chat_result = Completed jsstring | Streaming text_stream

text \<open>
  Modelled from the spec: \<open>LLMService.callLLM\<close> is not among the sources. It is handed
  the resolved options, the prompt and the hooks \<open>{onChunk, onComplete}\<close>. Not streaming,
  it awaits the model, calls \<open>onComplete\<close> once with the full text and returns it.
  Streaming, it returns at once a stream that holds the hooks it was handed. A failure of
  the model is the failure of the call.
\<close>

definition callLLM ::
  "ragchat \<Rightarrow> chat_options \<Rightarrow> jsstring \<Rightarrow> callback option \<Rightarrow> (jsstring \<Rightarrow> world \<Rightarrow> world)
     \<Rightarrow> world \<Rightarrow> (error + chat_result) \<times> world" where
  "callLLM rc optionsWithDefault prompt chunkHook completeHook w =
     (let w1 = emit (CallLLM prompt) w in
      case rc_llm rc prompt of
        Inl e \<Rightarrow> (Inl e, w1)
      | Inr cs \<Rightarrow>
          if get (streaming optionsWithDefault) = Some True
          then (Inr (Streaming \<lparr>chunks = cs, whenChunk = chunkHook,
                                   whenComplete = completeHook\<rparr>), w1)
          else (Inr (Completed (concat cs)), completeHook (concat cs) w1))"

text \<open>
  Modelled from the spec: the stream that \<open>LLMService.callLLM\<close>, which is not among the
  sources, returns. Each chunk read calls the \<open>onChunk\<close> of the stream when there is one.
\<close>

definition chunkRead :: "text_stream \<Rightarrow> jsstring \<Rightarrow> world \<Rightarrow> world" where
  "chunkRead s c w =
     (case whenChunk s of
        None \<Rightarrow> w
      | Some cb \<Rightarrow> emit (OnChunk cb c) w)"

text \<open>
  Modelled from the spec: the stream that \<open>LLMService.callLLM\<close>, which is not among the
  sources, returns. Reading it to its end calls its \<open>onChunk\<close> on each chunk in order and
  then its \<open>onComplete\<close> once with the concatenated text.
\<close>

definition consumeStream :: "text_stream \<Rightarrow> world \<Rightarrow> world" where
  "consumeStream s w = whenComplete s (concat (chunks s)) (fold (chunkRead s) (chunks s) w)"

subsection \<open>\<open>chat\<close>\<close>

text \<open>
  The awaited statements of the \<open>try\<close> block, down to the prompt: the first that throws
  ends the block.
\<close>

definition chatSteps ::
  "constants \<Rightarrow> ragchat \<Rightarrow> jsstring \<Rightarrow> chat_options option \<Rightarrow> world
     \<Rightarrow> (error + chat_options \<times> jsstring) \<times> world" where
  "chatSteps K rc input options w =
     (let optionsWithDefault = getOptionsWithDefaults K (rc_config rc) options in
      case checkRatelimit rc optionsWithDefault w of
        (Inl e, w1) \<Rightarrow> (Inl e, w1)
      | (Inr u, w1) \<Rightarrow>
          (let w2 = addUserMessageToHistory input optionsWithDefault w1;
               q = sanitizeQuestion input
           in case getContext rc optionsWithDefault input w2 of
                (Inl e, w3) \<Rightarrow> (Inl e, w3)
              | (Inr ctx, w3) \<Rightarrow>
                  (let (formattedHistory, w4) = getChatHistory rc optionsWithDefault w3
                   in case generatePrompt rc optionsWithDefault ctx q formattedHistory w4 of
                        (Inl e, w5) \<Rightarrow> (Inl e, w5)
                      | (Inr prompt, w5) \<Rightarrow> (Inr (optionsWithDefault, prompt), w5))))"

text \<open>
  \<open>chat\<close>: an error thrown by an awaited statement is logged and thrown again. The promise
  of \<open>callLLM\<close> is returned, not awaited: its rejection does not pass through \<open>catch\<close>.
\<close>

definition chat ::
  "constants \<Rightarrow> ragchat \<Rightarrow> jsstring \<Rightarrow> chat_options option \<Rightarrow> world
     \<Rightarrow> (error + chat_result) \<times> world" where
  "chat K rc input options w =
     (case chatSteps K rc input options w of
        (Inl e, w1) \<Rightarrow> (Inl e, debug rc (LogError e) w1)
      | (Inr (optionsWithDefault, prompt), w1) \<Rightarrow>
          callLLM rc optionsWithDefault prompt (get (onChunk optionsWithDefault))
            (onComplete rc optionsWithDefault) w1)"

section \<open>\<open>rag-chat-base.ts\<close>: \<open>prepareChat\<close>\<close>

record vector_payload =
  vp_question :: jsstring
  vp_similarityThreshold :: "rat option"
  vp_topK :: "nat option"
  vp_metadataKey :: "jsstring option"

definition prepareChat ::
  "(vector_payload \<Rightarrow> error + jsstring) \<Rightarrow> vector_payload \<Rightarrow> error + jsstring \<times> jsstring" where
  "prepareChat retrieve payload =
     (let q = sanitizeQuestion (vp_question payload) in
      case retrieve (payload\<lparr>vp_question := q\<rparr>) of
        Inl e \<Rightarrow> Inl e
      | Inr facts \<Rightarrow> Inr (q, facts))"

section \<open>An instance for evaluation\<close>

text \<open>
  The defaults are those the comments of \<open>types.ts\<close> document; the namespace and the
  prompts are examples.
\<close>

definition example_constants :: constants where
  "example_constants =
     \<lparr>DEFAULT_CHAT_SESSION_ID = js ''upstash-rag-chat-session'',
      DEFAULT_CHAT_RATELIMIT_SESSION_ID = js ''upstash-rag-chat-ratelimit-session'',
      DEFAULT_SIMILARITY_THRESHOLD = 1 / 2,
      DEFAULT_TOP_K = 5,
      DEFAULT_HISTORY_LENGTH = 5,
      DEFAULT_HISTORY_TTL = 86400,
      DEFAULT_NAMESPACE = js ''ns'',
      DEFAULT_PROMPT_WITHOUT_RAG = (\<lambda>p. js ''Q: '' @ question p)\<rparr>"

definition example_prompt :: custom_prompt where
  "example_prompt p = js ''C: '' @ context_text p @ js '' Q: '' @ question p"

definition example_index :: vector_index where
  "example_index q = Inr [js ''fact about '' @ q]"

definition example_model :: language_model where
  "example_model prompt = Inr [js ''An'', js ''kara'']"

definition failing_model :: language_model where
  "failing_model prompt = Inl (CollaboratorError (js ''model down''))"

definition denying_limiter :: limiter where
  "denying_limiter sid = Inr \<lparr>success = False, reset = Some 1700000000000\<rparr>"

definition example_config :: config where
  "example_config =
     \<lparr>cfg_vector = Some example_index, cfg_model = Some example_model,
      cfg_ratelimit = None, cfg_namespace = None, cfg_metadata = None,
      cfg_streaming = None, cfg_sessionId = Some (js ''s1''),
      cfg_ratelimitSessionId = Some (js ''r1''), cfg_prompt = Some example_prompt,
      cfg_debug = False\<rparr>"

definition example_chat :: ragchat where
  "example_chat =
     \<lparr>rc_ratelimit = None, rc_llm = example_model, rc_vector = example_index,
      rc_namespace = js ''ns'', rc_config = example_config, rc_debug = False\<rparr>"

definition empty_world :: world where
  "empty_world = \<lparr>history = [], trace = []\<rparr>"

definition example_world :: world where
  "example_world =
     \<lparr>history =
        [(Some (js ''s1''), \<lparr>content = js ''q1'', role = User, msg_metadata = None\<rparr>),
         (Some (js ''s1''), \<lparr>content = js ''a1'', role = Assistant, msg_metadata = Some []\<rparr>),
         (Some (js ''s2''), \<lparr>content = js ''other'', role = User, msg_metadata = None\<rparr>),
         (Some (js ''s1''), \<lparr>content = js ''q2'', role = User, msg_metadata = None\<rparr>)],
      trace = []\<rparr>"

text \<open>A hook that empties the array it is given and returns nothing.\<close>

definition clearing_hook :: history_hook where
  "clearing_hook ms = ([], ReturnsNothing)"

text \<open>A hook that appends to the array it is given a copy of its elements and returns it.\<close>

definition doubling_hook :: history_hook where
  "doubling_hook ms = (ms @ ms, ReturnsArgument)"

text \<open>
  Three \<open>ratelimitDetails\<close> hooks: one only reads the response, one throws, one sets
  \<open>success\<close> to true.
\<close>

definition reading_hook :: ratelimit_hook where
  "reading_hook r = Inr r"

definition throwing_hook :: ratelimit_hook where
  "throwing_hook r = Inl (CollaboratorError (js ''hook failed''))"

definition approving_hook :: ratelimit_hook where
  "approving_hook r = Inr (r\<lparr>success := True\<rparr>)"

section \<open>Growth of the world\<close>

text \<open>A later world extends an earlier one: the trace and the store only grow at the end.\<close>

definition extends :: "world \<Rightarrow> world \<Rightarrow> bool" where
  "extends w w' = (prefix (trace w) (trace w') \<and> prefix (history w) (history w'))"

section \<open>Sanitization\<close>

lemma is_ws_nl: "is_ws nl"
  by (simp add: is_ws_def nl_def)

lemma not_ws_sp_map: "\<not> is_ws c \<Longrightarrow> (if c = nl then sp else c) = c"
  using is_ws_nl by auto

lemma dropWhile_fix: "xs = [] \<or> \<not> P (hd xs) \<Longrightarrow> dropWhile P xs = xs"
  by (cases xs) auto

lemma trim_ends: "trim s = [] \<or> (\<not> is_ws (hd (trim s)) \<and> \<not> is_ws (last (trim s)))"
proof (cases "trim s = []")
  case True
  then show ?thesis by simp
next
  case False
  define t where "t = dropWhile is_ws s"
  define u where "u = dropWhile is_ws (rev t)"
  have tr: "trim s = rev u" by (simp add: trim_def t_def u_def)
  with False have une: "u \<noteq> []" by simp
  then have hu: "\<not> is_ws (hd u)" unfolding u_def by (rule hd_dropWhile)
  have "rev t = takeWhile is_ws (rev t) @ u" by (simp add: u_def)
  then have "last (rev t) = last u" using une by (metis last_appendR)
  moreover have tne: "t \<noteq> []" using une u_def by auto
  ultimately have "last u = hd t" by (simp add: last_rev)
  moreover have "\<not> is_ws (hd t)" using tne unfolding t_def by (rule hd_dropWhile)
  ultimately have "\<not> is_ws (last u)" by simp
  with hu une show ?thesis by (simp add: tr hd_rev last_rev)
qed

lemma trim_fix: "s = [] \<or> (\<not> is_ws (hd s) \<and> \<not> is_ws (last s)) \<Longrightarrow> trim s = s"
proof -
  assume a: "s = [] \<or> (\<not> is_ws (hd s) \<and> \<not> is_ws (last s))"
  then have 1: "dropWhile is_ws s = s" by (intro dropWhile_fix) auto
  from a have "rev s = [] \<or> \<not> is_ws (hd (rev s))" by (auto simp: hd_rev)
  then have "dropWhile is_ws (rev s) = rev s" by (rule dropWhile_fix)
  with 1 show ?thesis by (simp add: trim_def)
qed

lemma trim_decomp:
  "s = takeWhile is_ws s @ trim s @ rev (takeWhile is_ws (rev (dropWhile is_ws s)))"
proof -
  define t where "t = dropWhile is_ws s"
  have "rev t = takeWhile is_ws (rev t) @ dropWhile is_ws (rev t)" by simp
  then have "rev (rev t) = rev (takeWhile is_ws (rev t) @ dropWhile is_ws (rev t))" by simp
  then have "t = rev (dropWhile is_ws (rev t)) @ rev (takeWhile is_ws (rev t))"
    by (simp only: rev_rev_ident rev_append)
  moreover have "s = takeWhile is_ws s @ t" by (simp add: t_def)
  ultimately show ?thesis by (simp add: trim_def t_def)
qed

lemma list_all_takeWhile: "list_all P (takeWhile P xs)"
  by (induction xs) auto

lemma sanitize_ends:
  "sanitizeQuestion x = [] \<or> (\<not> is_ws (hd (sanitizeQuestion x)) \<and> \<not> is_ws (last (sanitizeQuestion x)))"
proof (cases "trim x = []")
  case True
  then show ?thesis by (simp add: sanitizeQuestion_def replaceAll_nl_sp_def)
next
  case False
  with trim_ends [of x] have e: "\<not> is_ws (hd (trim x))" "\<not> is_ws (last (trim x))" by auto
  from False have "hd (sanitizeQuestion x) = hd (trim x)"
    using not_ws_sp_map [OF e(1)] by (simp add: sanitizeQuestion_def replaceAll_nl_sp_def hd_map)
  moreover from False have "last (sanitizeQuestion x) = last (trim x)"
    using not_ws_sp_map [OF e(2)] by (simp add: sanitizeQuestion_def replaceAll_nl_sp_def last_map)
  ultimately show ?thesis using e by simp
qed

lemma sanitize_no_nl: "nl \<notin> set (sanitizeQuestion x)"
  by (auto simp: sanitizeQuestion_def replaceAll_nl_sp_def nl_def sp_def)

lemma replaceAll_fix: "nl \<notin> set s \<Longrightarrow> replaceAll_nl_sp s = s"
  by (induction s) (auto simp: replaceAll_nl_sp_def)

lemma sanitize_idem: "sanitizeQuestion (sanitizeQuestion x) = sanitizeQuestion x"
proof -
  have "trim (sanitizeQuestion x) = sanitizeQuestion x"
    using sanitize_ends [of x] by (rule trim_fix)
  then show ?thesis
    using sanitize_no_nl [of x] by (simp add: sanitizeQuestion_def [of "sanitizeQuestion x"] replaceAll_fix)
qed

text \<open>
  Claim C6. For every input, \<open>sanitizeQuestion\<close> yields a string with no newline and with
  no whitespace at either end; the input is whitespace, the trimmed string, whitespace; the
  result is the trimmed string with each newline replaced by one space and every other code
  unit left as it is; and sanitizing twice is sanitizing once.
\<close>

theorem sanitizeQuestion_spec:
  "nl \<notin> set (sanitizeQuestion x)
   \<and> (sanitizeQuestion x = [] \<or>
        (\<not> is_ws (hd (sanitizeQuestion x)) \<and> \<not> is_ws (last (sanitizeQuestion x))))
   \<and> (\<exists>p q. x = p @ trim x @ q \<and> list_all is_ws p \<and> list_all is_ws q)
   \<and> length (sanitizeQuestion x) = length (trim x)
   \<and> (\<forall>i < length (trim x).
         sanitizeQuestion x ! i = (if trim x ! i = nl then sp else trim x ! i))
   \<and> sanitizeQuestion (sanitizeQuestion x) = sanitizeQuestion x"
proof -
  have d: "\<exists>p q. x = p @ trim x @ q \<and> list_all is_ws p \<and> list_all is_ws q"
  proof (intro exI conjI)
    show "x = takeWhile is_ws x @ trim x @ rev (takeWhile is_ws (rev (dropWhile is_ws x)))"
      by (rule trim_decomp)
    show "list_all is_ws (takeWhile is_ws x)" by (rule list_all_takeWhile)
    show "list_all is_ws (rev (takeWhile is_ws (rev (dropWhile is_ws x))))"
      using list_all_takeWhile [of is_ws "rev (dropWhile is_ws x)"] by (simp add: list_all_iff)
  qed
  have l: "length (sanitizeQuestion x) = length (trim x)"
    by (simp add: sanitizeQuestion_def replaceAll_nl_sp_def)
  have p: "\<forall>i < length (trim x).
         sanitizeQuestion x ! i = (if trim x ! i = nl then sp else trim x ! i)"
    by (simp add: sanitizeQuestion_def replaceAll_nl_sp_def)
  from sanitize_no_nl sanitize_ends d l p sanitize_idem show ?thesis by blast
qed

theorem sanitizeQuestion_spec_witness:
  "sanitizeQuestion (js ''  Where  is\<newline>the capital of Turkey?\<newline> '') = js ''Where  is the capital of Turkey?''
   \<and> nl \<notin> set (sanitizeQuestion (js ''  Where  is\<newline>the capital of Turkey?\<newline> ''))
   \<and> sanitizeQuestion (js ''  Where  is\<newline>the capital of Turkey?\<newline> '') \<noteq> []
   \<and> \<not> is_ws (hd (sanitizeQuestion (js ''  Where  is\<newline>the capital of Turkey?\<newline> '')))
   \<and> \<not> is_ws (last (sanitizeQuestion (js ''  Where  is\<newline>the capital of Turkey?\<newline> '')))
   \<and> (9 :: nat) < length (trim (js ''  Where  is\<newline>the capital of Turkey?\<newline> ''))
   \<and> sanitizeQuestion (js ''  Where  is\<newline>the capital of Turkey?\<newline> '') ! 9 = sp
   \<and> sanitizeQuestion (sanitizeQuestion (js ''  Where  is\<newline>the capital of Turkey?\<newline> ''))
       = sanitizeQuestion (js ''  Where  is\<newline>the capital of Turkey?\<newline> '')"
proof -
  have e: "sanitizeQuestion (js ''  Where  is\<newline>the capital of Turkey?\<newline> '') = js ''Where  is the capital of Turkey?''"
    by code_simp
  have t: "trim (js ''  Where  is\<newline>the capital of Turkey?\<newline> '') = js ''Where  is\<newline>the capital of Turkey?''"
    by code_simp
  show ?thesis
    using sanitizeQuestion_spec [of "js ''  Where  is\<newline>the capital of Turkey?\<newline> ''"]
    unfolding e t by (simp add: js_def is_ws_def nl_def sp_def)
qed

section \<open>Traces and stores of the steps\<close>

lemma emit_simps [simp]: "history (emit e w) = history w" "trace (emit e w) = trace w @ [e]"
  by (simp_all add: emit_def)

lemma debug_simps [simp]:
  "history (debug rc c w) = history w"
  "trace (debug rc c w) = trace w @ (if rc_debug rc then [Debug c] else [])"
  by (simp_all add: debug_def)

lemma addMessage_simps [simp]:
  "history (addMessage sid m w) = history w @ [(sid, m)]"
  "trace (addMessage sid m w) = trace w @ [AddMessage sid m]"
  by (simp_all add: addMessage_def)

lemma extends_refl [simp]: "extends w w"
  by (simp add: extends_def)

lemma extends_trans: "extends a b \<Longrightarrow> extends b c \<Longrightarrow> extends a c"
  by (auto simp: extends_def)

lemma extends_emit [simp]: "extends w (emit e w)"
  by (simp add: extends_def)

lemma extends_debug [simp]: "extends w (debug rc c w)"
  by (simp add: extends_def)

lemma extends_addMessage [simp]: "extends w (addMessage sid m w)"
  by (simp add: extends_def)

lemma getContext_world: "snd (getContext rc opts q w) = emit (GetContext q) w"
  by (simp add: getContext_def Let_def split: sum.splits)

lemma getMessages_world: "snd (getMessages sid n w) = emit (GetMessages sid n) w"
  by (simp add: getMessages_def)

lemma fetchChatHistory_history: "history (snd (fetchChatHistory rc opts w)) = history w"
  by (simp add: fetchChatHistory_def getMessages_def Let_def split: prod.splits option.splits)

lemma fetchChatHistory_extends: "extends w (snd (fetchChatHistory rc opts w))"
  by (simp add: fetchChatHistory_def getMessages_def Let_def extends_def split: prod.splits option.splits)

lemma getChatHistory_extends: "extends w (snd (getChatHistory rc opts w))"
  using fetchChatHistory_extends [of w rc opts]
  by (auto simp: getChatHistory_def Let_def split: prod.splits intro: extends_trans [OF _ extends_debug])

lemma getChatHistory_history: "history (snd (getChatHistory rc opts w)) = history w"
  using fetchChatHistory_history [of rc opts w]
  by (auto simp: getChatHistory_def Let_def split: prod.splits)

lemma generatePrompt_extends: "extends w (snd (generatePrompt rc opts c q h w))"
  by (simp add: generatePrompt_def Let_def split: option.splits)

lemma generatePrompt_history: "history (snd (generatePrompt rc opts c q h w)) = history w"
  by (simp add: generatePrompt_def Let_def split: option.splits)

lemma onComplete_extends: "extends w (onComplete rc opts out w)"
  by (simp add: onComplete_def extends_def)

lemma callLLM_extends: "extends w (snd (callLLM rc opts p ch (onComplete rc opts) w))"
  using onComplete_extends [of "emit (CallLLM p) w" rc opts]
  by (auto simp: callLLM_def Let_def split: sum.splits intro: extends_trans [OF extends_emit])

section \<open>The rate limit\<close>

lemmas eval_defs = chat_def chatSteps_def getOptionsWithDefaults_def appendDefaultsIfNeeded_def
  isRagDisabledAndPromptFunctionMissing_def no_options_def checkRatelimit_def checkLimit_def
  addUserMessageToHistory_def addMessage_def emit_def getContext_def getChatHistory_def
  fetchChatHistory_def getMessages_def newestFirst_def alloc_def structuredClone_def overwrite_def
  reverse_def callHook_def empty_heap_def formatMessage_def generatePrompt_def callLLM_def
  onComplete_def debug_def formatFacts_def Let_def readMessages_def consumeStream_def chunkRead_def
  example_constants_def example_chat_def example_config_def example_index_def
  example_model_def example_prompt_def empty_world_def failing_model_def denying_limiter_def
  reading_hook_def throwing_hook_def approving_hook_def

lemma resolved_ratelimitDetails:
  "ratelimitDetails (getOptionsWithDefaults K cfg options) =
     (case options of None \<Rightarrow> Missing | Some x \<Rightarrow> ratelimitDetails x)"
  by (simp add: getOptionsWithDefaults_def appendDefaultsIfNeeded_def no_options_def Let_def
        split: option.splits)

lemma resolved_hook:
  "get (ratelimitDetails (getOptionsWithDefaults K cfg options)) =
     (case options of None \<Rightarrow> None | Some x \<Rightarrow> get (ratelimitDetails x))"
  by (simp add: resolved_ratelimitDetails split: option.splits)

lemma checkRatelimit_result:
  assumes "checkLimit (rc_ratelimit rc) (get (ratelimitSessionId opts)) = Inr resp"
    and "called = (case get (ratelimitDetails opts) of None \<Rightarrow> Inr resp | Some f \<Rightarrow> f resp)"
  shows "fst (checkRatelimit rc opts w) =
           (case called of
              Inl e \<Rightarrow> Inl e
            | Inr r \<Rightarrow>
                if \<not> success r
                then Inl (RatelimitUpstashError (js ''Couldn't process chat due to ratelimit.'')
                            (js ''ERR:USER_RATELIMITED'') (reset r))
                else Inr ())"
    and "history (snd (checkRatelimit rc opts w)) = history w"
    and "trace (snd (checkRatelimit rc opts w)) =
           trace w @ [CheckLimit (get (ratelimitSessionId opts))]
           @ (case get (ratelimitDetails opts) of None \<Rightarrow> [] | Some f \<Rightarrow> [RatelimitDetails resp])"
  using assms
  by (simp_all add: checkRatelimit_def Let_def split: option.splits sum.splits)

text \<open>
  Claim C1, amended. The \<open>ratelimitDetails\<close> hook, when supplied, is called on the
  response of the limiter right after the check and before \<open>success\<close> is read. When the
  hook throws, or when the response as the hook leaves it (the response of the limiter when
  there is no hook) has \<open>success\<close> false, \<open>chat\<close> rejects: with what the hook threw, or with
  the rate-limit error carrying the reset time of that response. The history store is then
  what it was, and the calls \<open>chat\<close> has made are the check, the hook, and (with a logger)
  the log of the error: no message is appended.
\<close>

theorem chat_rejects_when_rate_limited:
  assumes "checkLimit (rc_ratelimit rc)
             (get (ratelimitSessionId (getOptionsWithDefaults K (rc_config rc) options))) = Inr resp"
    and "hook = (case options of None \<Rightarrow> None | Some x \<Rightarrow> get (ratelimitDetails x))"
    and "called = (case hook of None \<Rightarrow> Inr resp | Some f \<Rightarrow> f resp)"
    and "case called of Inl e \<Rightarrow> True | Inr r \<Rightarrow> \<not> success r"
    and "thrown = (case called of
                     Inl e \<Rightarrow> e
                   | Inr r \<Rightarrow> RatelimitUpstashError (js ''Couldn't process chat due to ratelimit.'')
                               (js ''ERR:USER_RATELIMITED'') (reset r))"
  shows "fst (chat K rc input options w) = Inl thrown
       \<and> history (snd (chat K rc input options w)) = history w
       \<and> trace (snd (chat K rc input options w)) =
           trace w
           @ [CheckLimit (get (ratelimitSessionId (getOptionsWithDefaults K (rc_config rc) options)))]
           @ (case hook of None \<Rightarrow> [] | Some f \<Rightarrow> [RatelimitDetails resp])
           @ (if rc_debug rc then [Debug (LogError thrown)] else [])"
proof -
  let ?opts = "getOptionsWithDefaults K (rc_config rc) options"
  have h: "get (ratelimitDetails ?opts) = hook"
    by (simp add: resolved_hook assms(2))
  have c: "called = (case get (ratelimitDetails ?opts) of None \<Rightarrow> Inr resp | Some f \<Rightarrow> f resp)"
    by (simp add: h assms(3))
  note r = checkRatelimit_result [OF assms(1) c, of w]
  have f: "fst (checkRatelimit rc ?opts w) = Inl thrown"
    using assms(4,5) by (cases called) (simp_all add: r(1))
  obtain w1 where w1: "checkRatelimit rc ?opts w = (Inl thrown, w1)"
    using f by (cases "checkRatelimit rc ?opts w") simp
  with r(2,3) have "history w1 = history w"
    "trace w1 = trace w @ [CheckLimit (get (ratelimitSessionId ?opts))]
       @ (case hook of None \<Rightarrow> [] | Some f \<Rightarrow> [RatelimitDetails resp])"
    by (simp_all add: h)
  then show ?thesis
    by (simp add: chat_def chatSteps_def w1)
qed

theorem chat_rejects_when_rate_limited_witness:
  "checkLimit (rc_ratelimit (example_chat\<lparr>rc_ratelimit := Some denying_limiter\<rparr>))
     (get (ratelimitSessionId (getOptionsWithDefaults example_constants
        (rc_config (example_chat\<lparr>rc_ratelimit := Some denying_limiter\<rparr>))
        (Some (no_options\<lparr>ratelimitDetails := Value reading_hook\<rparr>)))))
     = Inr \<lparr>success = False, reset = Some 1700000000000\<rparr>
   \<and> reading_hook \<lparr>success = False, reset = Some 1700000000000\<rparr>
       = Inr \<lparr>success = False, reset = Some 1700000000000\<rparr>
   \<and> fst (chat example_constants (example_chat\<lparr>rc_ratelimit := Some denying_limiter\<rparr>)
          (js ''hi'') (Some (no_options\<lparr>ratelimitDetails := Value reading_hook\<rparr>)) empty_world)
       = Inl (RatelimitUpstashError (js ''Couldn't process chat due to ratelimit.'')
                (js ''ERR:USER_RATELIMITED'') (Some 1700000000000))
   \<and> history (snd (chat example_constants (example_chat\<lparr>rc_ratelimit := Some denying_limiter\<rparr>)
          (js ''hi'') (Some (no_options\<lparr>ratelimitDetails := Value reading_hook\<rparr>)) empty_world)) = []
   \<and> trace (snd (chat example_constants (example_chat\<lparr>rc_ratelimit := Some denying_limiter\<rparr>)
          (js ''hi'') (Some (no_options\<lparr>ratelimitDetails := Value reading_hook\<rparr>)) empty_world))
       = [CheckLimit (Some (js ''r1'')),
          RatelimitDetails \<lparr>success = False, reset = Some 1700000000000\<rparr>]
   \<and> throwing_hook \<lparr>success = False, reset = Some 1700000000000\<rparr>
       = Inl (CollaboratorError (js ''hook failed''))
   \<and> fst (chat example_constants (example_chat\<lparr>rc_ratelimit := Some denying_limiter\<rparr>)
          (js ''hi'') (Some (no_options\<lparr>ratelimitDetails := Value throwing_hook\<rparr>)) empty_world)
       = Inl (CollaboratorError (js ''hook failed''))
   \<and> history (snd (chat example_constants (example_chat\<lparr>rc_ratelimit := Some denying_limiter\<rparr>)
          (js ''hi'') (Some (no_options\<lparr>ratelimitDetails := Value throwing_hook\<rparr>)) empty_world)) = []"
proof -
  let ?rc = "example_chat\<lparr>rc_ratelimit := Some denying_limiter\<rparr>"
  let ?o = "Some (no_options\<lparr>ratelimitDetails := Value reading_hook\<rparr>)"
  let ?t = "Some (no_options\<lparr>ratelimitDetails := Value throwing_hook\<rparr>)"
  let ?resp = "\<lparr>success = False, reset = Some 1700000000000\<rparr>"
  have sid: "get (ratelimitSessionId (getOptionsWithDefaults example_constants (rc_config ?rc) ?o))
               = Some (js ''r1'')"
    "get (ratelimitSessionId (getOptionsWithDefaults example_constants (rc_config ?rc) ?t))
               = Some (js ''r1'')"
    by (simp_all add: getOptionsWithDefaults_def appendDefaultsIfNeeded_def no_options_def
          example_chat_def example_config_def Let_def)
  have h1: "checkLimit (rc_ratelimit ?rc)
              (get (ratelimitSessionId (getOptionsWithDefaults example_constants (rc_config ?rc) ?o)))
            = Inr ?resp"
    by (simp add: checkLimit_def denying_limiter_def)
  have h1t: "checkLimit (rc_ratelimit ?rc)
              (get (ratelimitSessionId (getOptionsWithDefaults example_constants (rc_config ?rc) ?t)))
            = Inr ?resp"
    by (simp add: checkLimit_def denying_limiter_def)
  have rd: "reading_hook ?resp = Inr ?resp" by (simp add: reading_hook_def)
  have th: "throwing_hook ?resp = Inl (CollaboratorError (js ''hook failed''))"
    by (simp add: throwing_hook_def)
  have h4: "case (case (case ?o of None \<Rightarrow> None | Some x \<Rightarrow> get (ratelimitDetails x)) of
                    None \<Rightarrow> Inr ?resp | Some f \<Rightarrow> f ?resp) of
              Inl e \<Rightarrow> True | Inr r \<Rightarrow> \<not> success r"
    by (simp add: rd)
  have h4t: "case (case (case ?t of None \<Rightarrow> None | Some x \<Rightarrow> get (ratelimitDetails x)) of
                    None \<Rightarrow> Inr ?resp | Some f \<Rightarrow> f ?resp) of
              Inl e \<Rightarrow> True | Inr r \<Rightarrow> \<not> success r"
    by (simp add: th)
  from chat_rejects_when_rate_limited [OF h1 refl refl h4 refl, of "js ''hi''" empty_world]
  have a: "fst (chat example_constants ?rc (js ''hi'') ?o empty_world)
       = Inl (RatelimitUpstashError (js ''Couldn't process chat due to ratelimit.'')
                (js ''ERR:USER_RATELIMITED'') (Some 1700000000000))"
    "history (snd (chat example_constants ?rc (js ''hi'') ?o empty_world)) = []"
    "trace (snd (chat example_constants ?rc (js ''hi'') ?o empty_world))
       = [CheckLimit (Some (js ''r1'')), RatelimitDetails ?resp]"
    unfolding sid by (simp_all add: rd empty_world_def example_chat_def)
  from chat_rejects_when_rate_limited [OF h1t refl refl h4t refl, of "js ''hi''" empty_world]
  have b: "fst (chat example_constants ?rc (js ''hi'') ?t empty_world)
       = Inl (CollaboratorError (js ''hook failed''))"
    "history (snd (chat example_constants ?rc (js ''hi'') ?t empty_world)) = []"
    by (simp_all add: th empty_world_def)
  from h1 rd th a b show ?thesis by simp
qed

theorem chat_rate_limited_counterexample:
  "checkLimit (Some denying_limiter) (Some (js ''r1''))
     = Inr \<lparr>success = False, reset = Some 1700000000000\<rparr>
   \<and> fst (chat example_constants (example_chat\<lparr>rc_ratelimit := Some denying_limiter\<rparr>)
          (js ''hi'') (Some (no_options\<lparr>ratelimitDetails := Value throwing_hook\<rparr>)) empty_world)
       = Inl (CollaboratorError (js ''hook failed''))
   \<and> CollaboratorError (js ''hook failed'')
       \<noteq> RatelimitUpstashError (js ''Couldn't process chat due to ratelimit.'')
            (js ''ERR:USER_RATELIMITED'') (Some 1700000000000)
   \<and> fst (chat example_constants (example_chat\<lparr>rc_ratelimit := Some denying_limiter\<rparr>)
          (js ''hi'') (Some (no_options\<lparr>ratelimitDetails := Value approving_hook\<rparr>)) empty_world)
       = Inr (Completed (js ''Ankara''))
   \<and> history (snd (chat example_constants (example_chat\<lparr>rc_ratelimit := Some denying_limiter\<rparr>)
          (js ''hi'') (Some (no_options\<lparr>ratelimitDetails := Value approving_hook\<rparr>)) empty_world))
       = [(Some (js ''s1''), \<lparr>content = js ''hi'', role = User, msg_metadata = None\<rparr>),
          (Some (js ''s1''), \<lparr>content = js ''Ankara'', role = Assistant, msg_metadata = None\<rparr>)]"
  by (simp add: eval_defs js_def)

section \<open>The user turn\<close>

lemma chat_after_getContext:
  assumes rl: "checkRatelimit rc (getOptionsWithDefaults K (rc_config rc) options) w = (Inr u, w1)"
  shows "extends
           (emit (GetContext input)
              (addUserMessageToHistory input (getOptionsWithDefaults K (rc_config rc) options) w1))
           (snd (chat K rc input options w))"
proof -
  let ?opts = "getOptionsWithDefaults K (rc_config rc) options"
  let ?w2 = "addUserMessageToHistory input ?opts w1"
  let ?w3 = "emit (GetContext input) ?w2"
  obtain r3 w3 where gc: "getContext rc ?opts input ?w2 = (r3, w3)" by (cases "getContext rc ?opts input ?w2")
  with getContext_world [of rc ?opts input ?w2] have w3: "w3 = ?w3" by simp
  show ?thesis
  proof (cases r3)
    case (Inl e)
    with rl gc w3 show ?thesis
      by (simp add: chat_def chatSteps_def Let_def)
  next
    case (Inr ctx)
    obtain fh w4 where h: "getChatHistory rc ?opts ?w3 = (fh, w4)" by (cases "getChatHistory rc ?opts ?w3")
    with getChatHistory_extends [of ?w3 rc ?opts] have e4: "extends ?w3 w4" by simp
    obtain r5 w5 where g: "generatePrompt rc ?opts ctx (sanitizeQuestion input) fh w4 = (r5, w5)"
      by (cases "generatePrompt rc ?opts ctx (sanitizeQuestion input) fh w4")
    with generatePrompt_extends [of w4 rc ?opts ctx "sanitizeQuestion input" fh]
    have e5: "extends w4 w5" by simp
    show ?thesis
    proof (cases r5)
      case (Inl e)
      have "extends w5 (debug rc (LogError e) w5)" by simp
      with e4 e5 have "extends ?w3 (debug rc (LogError e) w5)" by (blast intro: extends_trans)
      with rl gc w3 Inr h g Inl show ?thesis
        by (simp add: chat_def chatSteps_def Let_def)
    next
      case (Inr prompt)
      have "extends w5 (snd (callLLM rc ?opts prompt (get (onChunk ?opts)) (onComplete rc ?opts) w5))"
        by (rule callLLM_extends)
      with e4 e5 have "extends ?w3 (snd (callLLM rc ?opts prompt (get (onChunk ?opts)) (onComplete rc ?opts) w5))"
        by (blast intro: extends_trans)
      with rl gc w3 \<open>r3 = Inr ctx\<close> h g Inr show ?thesis
        by (simp add: chat_def chatSteps_def Let_def)
    qed
  qed
qed


text \<open>
  Claim C2. When the rate-limit check succeeds (the limiter answers, and the response as
  the \<open>ratelimitDetails\<close> hook leaves it, when there is one, has \<open>success\<close> true), the calls
  of \<open>chat\<close> begin with the check of the limit, the hook when supplied, the append of the
  raw input as a \<open>user\<close> message, and only then the call of the context retriever; every
  other call (the read of the history, the model) comes later. Whatever \<open>chat\<close> returns or
  throws afterwards, the store holds the user message right after what it held before.
\<close>

theorem chat_records_user_turn:
  assumes "checkLimit (rc_ratelimit rc)
             (get (ratelimitSessionId (getOptionsWithDefaults K (rc_config rc) options))) = Inr resp"
    and "hook = (case options of None \<Rightarrow> None | Some x \<Rightarrow> get (ratelimitDetails x))"
    and "(case hook of None \<Rightarrow> Inr resp | Some f \<Rightarrow> f resp) = Inr r"
    and "success r"
  shows "\<exists>later_calls later_messages.
       trace (snd (chat K rc input options w)) =
           trace w
           @ [CheckLimit (get (ratelimitSessionId (getOptionsWithDefaults K (rc_config rc) options)))]
           @ (case hook of None \<Rightarrow> [] | Some f \<Rightarrow> [RatelimitDetails resp])
           @ [AddMessage (get (sessionId (getOptionsWithDefaults K (rc_config rc) options)))
                \<lparr>content = input, role = User, msg_metadata = None\<rparr>,
              GetContext input]
           @ later_calls
     \<and> history (snd (chat K rc input options w)) =
           history w
           @ [(get (sessionId (getOptionsWithDefaults K (rc_config rc) options)),
               \<lparr>content = input, role = User, msg_metadata = None\<rparr>)]
           @ later_messages"
proof -
  let ?opts = "getOptionsWithDefaults K (rc_config rc) options"
  have h: "get (ratelimitDetails ?opts) = hook"
    by (simp add: resolved_hook assms(2))
  have c: "Inr r = (case get (ratelimitDetails ?opts) of None \<Rightarrow> Inr resp | Some f \<Rightarrow> f resp)"
    by (simp add: h assms(3))
  note cr = checkRatelimit_result [OF assms(1) c, of w]
  obtain w1 where w1: "checkRatelimit rc ?opts w = (Inr (), w1)"
    using cr(1) assms(4) by (cases "checkRatelimit rc ?opts w") simp
  with cr(2,3) have hw1: "history w1 = history w"
    and tw1: "trace w1 = trace w @ [CheckLimit (get (ratelimitSessionId ?opts))]
       @ (case hook of None \<Rightarrow> [] | Some f \<Rightarrow> [RatelimitDetails resp])"
    by (simp_all add: h)
  from w1 have "extends (emit (GetContext input) (addUserMessageToHistory input ?opts w1))
               (snd (chat K rc input options w))"
    by (rule chat_after_getContext)
  then obtain t h where
    t: "trace (snd (chat K rc input options w)) =
          trace (emit (GetContext input) (addUserMessageToHistory input ?opts w1)) @ t"
    and h: "history (snd (chat K rc input options w)) =
          history (emit (GetContext input) (addUserMessageToHistory input ?opts w1)) @ h"
    by (auto simp: extends_def prefix_def)
  have "trace (snd (chat K rc input options w)) =
           trace w
           @ [CheckLimit (get (ratelimitSessionId ?opts))]
           @ (case hook of None \<Rightarrow> [] | Some f \<Rightarrow> [RatelimitDetails resp])
           @ [AddMessage (get (sessionId ?opts))
                \<lparr>content = input, role = User, msg_metadata = None\<rparr>,
              GetContext input]
           @ t"
    unfolding t by (simp add: addUserMessageToHistory_def tw1)
  moreover have "history (snd (chat K rc input options w)) =
           history w
           @ [(get (sessionId ?opts), \<lparr>content = input, role = User, msg_metadata = None\<rparr>)]
           @ h"
    unfolding h by (simp add: addUserMessageToHistory_def hw1)
  ultimately show ?thesis by blast
qed

theorem chat_records_user_turn_witness:
  "checkLimit (rc_ratelimit (example_chat\<lparr>rc_llm := failing_model\<rparr>))
     (get (ratelimitSessionId (getOptionsWithDefaults example_constants
        (rc_config (example_chat\<lparr>rc_llm := failing_model\<rparr>)) None)))
     = Inr \<lparr>success = True, reset = None\<rparr>
   \<and> success \<lparr>success = True, reset = None\<rparr>
   \<and> fst (chat example_constants (example_chat\<lparr>rc_llm := failing_model\<rparr>)
          (js '' a\<newline>b'') None empty_world) = Inl (CollaboratorError (js ''model down''))
   \<and> history (snd (chat example_constants (example_chat\<lparr>rc_llm := failing_model\<rparr>)
          (js '' a\<newline>b'') None empty_world))
       = [(Some (js ''s1''), \<lparr>content = js '' a\<newline>b'', role = User, msg_metadata = None\<rparr>)]
   \<and> take 3 (trace (snd (chat example_constants (example_chat\<lparr>rc_llm := failing_model\<rparr>)
          (js '' a\<newline>b'') None empty_world)))
       = [CheckLimit (Some (js ''r1'')),
          AddMessage (Some (js ''s1''))
            \<lparr>content = js '' a\<newline>b'', role = User, msg_metadata = None\<rparr>,
          GetContext (js '' a\<newline>b'')]"
proof -
  let ?rc = "example_chat\<lparr>rc_llm := failing_model\<rparr>"
  let ?resp = "\<lparr>success = True, reset = None\<rparr>"
  have h1: "checkLimit (rc_ratelimit ?rc)
              (get (ratelimitSessionId (getOptionsWithDefaults example_constants (rc_config ?rc) None)))
            = Inr ?resp"
    by (simp add: checkLimit_def example_chat_def)
  have h3: "(case (case None :: chat_options option of
                     None \<Rightarrow> None | Some x \<Rightarrow> get (ratelimitDetails x)) of
               None \<Rightarrow> Inr ?resp | Some f \<Rightarrow> f ?resp) = Inr ?resp"
    by simp
  have h4: "success ?resp" by simp
  have f: "fst (chat example_constants ?rc (js '' a\<newline>b'') None empty_world)
             = Inl (CollaboratorError (js ''model down''))"
    by (simp add: eval_defs)
  have hl: "length (history (snd (chat example_constants ?rc (js '' a\<newline>b'') None empty_world))) = 1"
    by (simp add: eval_defs)
  have s: "get (sessionId (getOptionsWithDefaults example_constants (rc_config ?rc) None)) = Some (js ''s1'')"
       "get (ratelimitSessionId (getOptionsWithDefaults example_constants (rc_config ?rc) None)) = Some (js ''r1'')"
    by (simp_all add: eval_defs)
  from chat_records_user_turn [OF h1 refl h3 h4, of "js '' a\<newline>b''" empty_world]
  obtain lc lm where
    "trace (snd (chat example_constants ?rc (js '' a\<newline>b'') None empty_world)) =
       [CheckLimit (Some (js ''r1'')),
        AddMessage (Some (js ''s1'')) \<lparr>content = js '' a\<newline>b'', role = User, msg_metadata = None\<rparr>,
        GetContext (js '' a\<newline>b'')] @ lc"
    "history (snd (chat example_constants ?rc (js '' a\<newline>b'') None empty_world)) =
       [(Some (js ''s1''), \<lparr>content = js '' a\<newline>b'', role = User, msg_metadata = None\<rparr>)] @ lm"
    unfolding s by (auto simp: empty_world_def)
  with hl h1 f show ?thesis by simp
qed

section \<open>Retrieval, options and construction\<close>

lemma prepareChat_sanitizes:
  "prepareChat retrieve payload =
     prepareChat retrieve (payload\<lparr>vp_question := sanitizeQuestion (vp_question payload)\<rparr>)"
  by (simp add: prepareChat_def sanitize_idem)

lemma prepareChat_question:
  "prepareChat retrieve payload = Inr (q, facts) \<Longrightarrow>
     q = sanitizeQuestion (vp_question payload)
     \<and> retrieve (payload\<lparr>vp_question := sanitizeQuestion (vp_question payload)\<rparr>) = Inr facts"
  by (auto simp: prepareChat_def Let_def split: sum.splits)

text \<open>
  Claim C3 fails on \<open>chat\<close>. On the input \<open>" a\nb"\<close> the context retriever is called
  with the raw input, not with the sanitized question \<open>"a b"\<close>, which only the prompt
  receives. \<open>prepareChat\<close> of \<open>rag-chat-base.ts\<close> does retrieve with the sanitized
  question (\<open>prepareChat_question\<close>).
\<close>

theorem chat_retrieves_with_raw_input:
  "trace (snd (chat example_constants example_chat (js '' a\<newline>b'') None empty_world)) =
     [CheckLimit (Some (js ''r1'')),
      AddMessage (Some (js ''s1''))
        \<lparr>content = js '' a\<newline>b'', role = User, msg_metadata = None\<rparr>,
      GetContext (js '' a\<newline>b''),
      GetMessages (Some (js ''s1'')) (Some 5),
      CallLLM (js ''C: fact about  a\<newline>b Q: a b''),
      AddMessage (Some (js ''s1''))
        \<lparr>content = js ''Ankara'', role = Assistant, msg_metadata = None\<rparr>]
   \<and> sanitizeQuestion (js '' a\<newline>b'') = js ''a b''
   \<and> js '' a\<newline>b'' \<noteq> js ''a b''"
  by (simp add: eval_defs sanitizeQuestion_def trim_def replaceAll_nl_sp_def is_ws_def nl_def
        sp_def js_def)

text \<open>
  Claim C4 fails on \<open>getOptionsWithDefaults\<close>. The object it hands to
  \<open>appendDefaultsIfNeeded\<close> always has the properties \<open>metadata\<close>, \<open>namespace\<close>,
  \<open>streaming\<close>, \<open>sessionId\<close> and \<open>ratelimitSessionId\<close>; when neither the call nor the
  instance gives one, it holds \<open>undefined\<close>, and the spread overwrites the constant default
  with it. A call-site property set to \<open>undefined\<close> does the same. With the example
  configuration, which sets no namespace, the resolved namespace is undefined although
  \<open>appendDefaultsIfNeeded\<close> alone gives the default.
\<close>

theorem defaults_overwritten_by_undefined:
  "namespace (getOptionsWithDefaults K (cfg\<lparr>cfg_namespace := None\<rparr>) None) = Undefined
   \<and> sessionId (getOptionsWithDefaults K (cfg\<lparr>cfg_sessionId := None\<rparr>) None) = Undefined
   \<and> ratelimitSessionId (getOptionsWithDefaults K (cfg\<lparr>cfg_ratelimitSessionId := None\<rparr>) None)
       = Undefined
   \<and> streaming (getOptionsWithDefaults K (cfg\<lparr>cfg_streaming := None\<rparr>) None) = Undefined
   \<and> metadata (getOptionsWithDefaults K (cfg\<lparr>cfg_metadata := None\<rparr>) None) = Undefined
   \<and> historyLength (getOptionsWithDefaults K cfg (Some (no_options\<lparr>historyLength := Undefined\<rparr>)))
       = Undefined
   \<and> get (namespace (getOptionsWithDefaults example_constants example_config None)) = None
   \<and> namespace (appendDefaultsIfNeeded example_constants None) = Value (js ''ns'')"
  by (simp add: getOptionsWithDefaults_def appendDefaultsIfNeeded_def no_options_def Let_def
        example_config_def example_constants_def)

lemma defaults_applied_when_missing:
  "historyLength (getOptionsWithDefaults K cfg None) = Value (DEFAULT_HISTORY_LENGTH K)
   \<and> historyTTL (getOptionsWithDefaults K cfg None) = Value (DEFAULT_HISTORY_TTL K)
   \<and> topK (getOptionsWithDefaults K cfg None) = Value (DEFAULT_TOP_K K)
   \<and> similarityThreshold (getOptionsWithDefaults K cfg None) = Value (DEFAULT_SIMILARITY_THRESHOLD K)
   \<and> disableRAG (getOptionsWithDefaults K cfg None) = Value False"
  by (simp add: getOptionsWithDefaults_def appendDefaultsIfNeeded_def no_options_def Let_def)

text \<open>
  Claim C5. With \<open>disableRAG\<close> true and no \<open>promptFn\<close> in the options, the resolved
  \<open>promptFn\<close> is \<open>DEFAULT_PROMPT_WITHOUT_RAG\<close>, whatever prompt the instance is
  configured with; a \<open>promptFn\<close> in the options is the resolved one.
\<close>

theorem promptFn_resolution:
  "(get (disableRAG x) = Some True \<and> get (promptFn x) = None \<longrightarrow>
      promptFn (getOptionsWithDefaults K cfg (Some x)) = Value (DEFAULT_PROMPT_WITHOUT_RAG K))
   \<and> (get (promptFn x) = Some f \<longrightarrow>
      promptFn (getOptionsWithDefaults K cfg (Some x)) = Value f)"
  by (simp add: getOptionsWithDefaults_def appendDefaultsIfNeeded_def Let_def
        isRagDisabledAndPromptFunctionMissing_def)

theorem promptFn_resolution_witness:
  "get (disableRAG (no_options\<lparr>disableRAG := Value True\<rparr>)) = Some True
   \<and> get (promptFn (no_options\<lparr>disableRAG := Value True\<rparr>)) = None
   \<and> cfg_prompt example_config = Some example_prompt
   \<and> promptFn (getOptionsWithDefaults example_constants example_config
        (Some (no_options\<lparr>disableRAG := Value True\<rparr>)))
       = Value (DEFAULT_PROMPT_WITHOUT_RAG example_constants)
   \<and> get (promptFn (no_options\<lparr>disableRAG := Value True, promptFn := Value example_prompt\<rparr>))
       = Some example_prompt
   \<and> promptFn (getOptionsWithDefaults example_constants example_config
        (Some (no_options\<lparr>disableRAG := Value True, promptFn := Value example_prompt\<rparr>)))
       = Value example_prompt"
  using promptFn_resolution [of "no_options\<lparr>disableRAG := Value True\<rparr>" example_constants
          example_config example_prompt]
        promptFn_resolution [of "no_options\<lparr>disableRAG := Value True, promptFn := Value example_prompt\<rparr>"
          example_constants example_config example_prompt]
  by (simp add: no_options_def example_config_def)

text \<open>
  Claim C9. Constructed from a configuration with no vector store or with no model, the
  constructor throws one of its two configuration errors and has made no call: the world is
  what it was.
\<close>

theorem constructor_rejects_missing_services:
  assumes "cfg_vector cfg = None \<or> cfg_model cfg = None"
  shows "\<exists>e. constructor K cfg w = (Inl e, w) \<and> isConfigurationError e"
  using assms by (auto simp: constructor_def split: option.splits)

theorem constructor_rejects_missing_services_witness:
  "cfg_model (example_config\<lparr>cfg_model := None\<rparr>) = None
   \<and> constructor example_constants (example_config\<lparr>cfg_model := None\<rparr>) empty_world
       = (Inl (UpstashError (js ''Model can not be undefined!'')), empty_world)
   \<and> cfg_vector (example_config\<lparr>cfg_vector := None\<rparr>) = None
   \<and> constructor example_constants (example_config\<lparr>cfg_vector := None\<rparr>) empty_world
       = (Inl (UpstashVectorError (js ''Vector can not be undefined!'')), empty_world)"
proof -
  have m: "cfg_vector (example_config\<lparr>cfg_model := None\<rparr>) = None
             \<or> cfg_model (example_config\<lparr>cfg_model := None\<rparr>) = None" by simp
  from constructor_rejects_missing_services [OF m, of example_constants empty_world]
  show ?thesis
    by (simp add: constructor_def example_config_def)
qed

section \<open>The chat history\<close>

lemma fetchChatHistory_no_hook:
  assumes "get (onChatHistoryFetched opts) = None"
  shows "cells (fh_heap (fst (fetchChatHistory rc opts w)))
           (modifiedChatHistory (fst (fetchChatHistory rc opts w)))
         = readMessages (history w) (get (sessionId opts)) (get (historyLength opts))"
  using assms
  by (simp add: fetchChatHistory_def getMessages_def alloc_def
        structuredClone_def empty_heap_def Let_def split: prod.splits)

lemma fetchChatHistory_hook:
  assumes "get (onChatHistoryFetched opts) = Some f"
    and "fetched = readMessages (history w) (get (sessionId opts)) (get (historyLength opts))"
  shows "clonedChatHistory (fst (fetchChatHistory rc opts w))
           \<noteq> originalChatHistory (fst (fetchChatHistory rc opts w))"
    and "cells (fh_heap (fst (fetchChatHistory rc opts w)))
           (originalChatHistory (fst (fetchChatHistory rc opts w))) = fetched"
    and "cells (fh_heap (fst (fetchChatHistory rc opts w)))
           (clonedChatHistory (fst (fetchChatHistory rc opts w))) = fst (f fetched)"
    and "cells (fh_heap (fst (fetchChatHistory rc opts w)))
           (modifiedChatHistory (fst (fetchChatHistory rc opts w))) =
         (case snd (f fetched) of
            ReturnsNothing \<Rightarrow> fetched
          | ReturnsArgument \<Rightarrow> fst (f fetched)
          | ReturnsArray v \<Rightarrow> v)"
    and "trace (snd (fetchChatHistory rc opts w)) =
           trace w @ (if rc_debug rc then [Debug StartRetrieveHistory] else [])
           @ [GetMessages (get (sessionId opts)) (get (historyLength opts)),
              OnChatHistoryFetched fetched]
           @ (if rc_debug rc then [Debug (EndRetrieveHistory (fst (f fetched)))] else [])"
  using assms
  by (simp_all add: fetchChatHistory_def getMessages_def alloc_def
        structuredClone_def callHook_def overwrite_def empty_heap_def Let_def
        split: prod.splits hook_return.splits)

lemma getChatHistory_formatted:
  "fst (getChatHistory rc opts w) =
     join [nl] (map formatMessage (rev (cells (fh_heap (fst (fetchChatHistory rc opts w)))
        (modifiedChatHistory (fst (fetchChatHistory rc opts w))))))"
  by (simp add: getChatHistory_def reverse_def overwrite_def Let_def split: prod.splits)

lemma readMessages_chronological:
  "rev (readMessages h sid (Some n)) =
     drop (length (map snd (filter (\<lambda>p. fst p = sid) h)) - n) (map snd (filter (\<lambda>p. fst p = sid) h))"
  by (simp add: readMessages_def newestFirst_def rev_take)

text \<open>
  Claim C7, amended. \<open>getChatHistory\<close> renders the messages of one array: the array the
  \<open>onChatHistoryFetched\<close> hook returns when it returns one, the fetched array otherwise.
  It renders them in the reverse of the array's order, each as \<open>USER MESSAGE: \<close> or
  \<open>YOUR MESSAGE: \<close> and its content by its role, joined by newlines. With
  \<open>historyLength\<close> \<open>n\<close>, the fetched array holds the last \<open>n\<close> messages of the session,
  at most \<open>n\<close>, newest first; so when no hook replaces it, the rendered messages are those,
  oldest first. An array the hook returns is rendered whatever its length.
\<close>

theorem history_formatting:
  assumes "get (historyLength opts) = Some n"
    and "fetched = readMessages (history w) (get (sessionId opts)) (Some n)"
    and "shown = (case get (onChatHistoryFetched opts) of
                    None \<Rightarrow> fetched
                  | Some f \<Rightarrow> (case snd (f fetched) of
                                ReturnsNothing \<Rightarrow> fetched
                              | ReturnsArgument \<Rightarrow> fst (f fetched)
                              | ReturnsArray v \<Rightarrow> v))"
    and "session = map snd (filter (\<lambda>p. fst p = get (sessionId opts)) (history w))"
  shows "fst (getChatHistory rc opts w) = join [nl] (map formatMessage (rev shown))
       \<and> (\<forall>m \<in> set shown.
             formatMessage m =
               (if role m = User then js ''USER MESSAGE: '' else js ''YOUR MESSAGE: '') @ content m)
       \<and> rev fetched = drop (length session - n) session
       \<and> length fetched \<le> n
       \<and> ((case get (onChatHistoryFetched opts) of
              None \<Rightarrow> True
            | Some f \<Rightarrow> snd (f fetched) = ReturnsNothing) \<longrightarrow>
           fst (getChatHistory rc opts w) =
             join [nl] (map formatMessage (drop (length session - n) session)))"
proof -
  have m: "cells (fh_heap (fst (fetchChatHistory rc opts w)))
             (modifiedChatHistory (fst (fetchChatHistory rc opts w))) = shown"
  proof (cases "get (onChatHistoryFetched opts)")
    case None
    then show ?thesis using assms(1,2,3) by (simp add: fetchChatHistory_no_hook)
  next
    case (Some f)
    have "fetched = readMessages (history w) (get (sessionId opts)) (get (historyLength opts))"
      by (simp add: assms(1,2))
    from fetchChatHistory_hook(4) [OF Some this, of rc] Some assms(3) show ?thesis by simp
  qed
  have f: "fst (getChatHistory rc opts w) = join [nl] (map formatMessage (rev shown))"
    by (simp add: getChatHistory_formatted m)
  have c: "rev fetched = drop (length session - n) session"
    unfolding assms(2,4) by (rule readMessages_chronological)
  have l: "length fetched \<le> n"
    by (simp add: assms(2) readMessages_def)
  have u: "(case get (onChatHistoryFetched opts) of
              None \<Rightarrow> True
            | Some f \<Rightarrow> snd (f fetched) = ReturnsNothing) \<Longrightarrow> shown = fetched"
    by (simp add: assms(3) split: option.splits)
  from f c l u show ?thesis
    by (auto simp: formatMessage_def)
qed

theorem history_formatting_witness:
  "get (historyLength (no_options\<lparr>sessionId := Value (js ''s1''), historyLength := Value 2\<rparr>)) = Some 2
   \<and> get (onChatHistoryFetched (no_options\<lparr>sessionId := Value (js ''s1''), historyLength := Value 2\<rparr>))
       = None
   \<and> fst (getChatHistory example_chat
        (no_options\<lparr>sessionId := Value (js ''s1''), historyLength := Value 2\<rparr>) example_world)
       = js ''YOUR MESSAGE: a1\<newline>USER MESSAGE: q2''
   \<and> readMessages (history example_world) (Some (js ''s1'')) (Some 2)
       = [\<lparr>content = js ''q2'', role = User, msg_metadata = None\<rparr>,
          \<lparr>content = js ''a1'', role = Assistant, msg_metadata = Some []\<rparr>]
   \<and> formatMessage \<lparr>content = js ''a1'', role = Assistant, msg_metadata = Some []\<rparr>
       = js ''YOUR MESSAGE: a1''"
proof -
  let ?o = "no_options\<lparr>sessionId := Value (js ''s1''), historyLength := Value 2\<rparr>"
  let ?a1 = "\<lparr>content = js ''a1'', role = Assistant, msg_metadata = Some []\<rparr>"
  have h1: "get (historyLength ?o) = Some 2" by simp
  have s: "get (sessionId ?o) = Some (js ''s1'')" by simp
  have k: "get (onChatHistoryFetched ?o) = None" by (simp add: no_options_def)
  have j: "js ''s2'' \<noteq> js ''s1''" by (simp add: js_def)
  have r: "readMessages (history example_world) (Some (js ''s1'')) (Some 2)
       = [\<lparr>content = js ''q2'', role = User, msg_metadata = None\<rparr>, ?a1]"
    by (simp add: readMessages_def newestFirst_def example_world_def j)
  note t = history_formatting [OF h1 refl refl refl, of example_chat example_world]
  from t have "fst (getChatHistory example_chat ?o example_world) =
          join [nl] (map formatMessage
            (rev (readMessages (history example_world) (Some (js ''s1'')) (Some 2))))"
    unfolding s k by simp
  then have a: "fst (getChatHistory example_chat ?o example_world)
               = js ''YOUR MESSAGE: a1\<newline>USER MESSAGE: q2''"
    unfolding r by (simp add: formatMessage_def js_def nl_def)
  from t have "\<forall>m \<in> set (readMessages (history example_world) (Some (js ''s1'')) (Some 2)).
             formatMessage m =
               (if role m = User then js ''USER MESSAGE: '' else js ''YOUR MESSAGE: '') @ content m"
    unfolding s k by simp
  then have b: "formatMessage ?a1 = js ''YOUR MESSAGE: a1''"
    unfolding r by (simp add: js_def)
  from a b r k show ?thesis by simp
qed

theorem history_formatting_counterexample:
  "get (historyLength (no_options\<lparr>sessionId := Value (js ''s1''), historyLength := Value 2,
          onChatHistoryFetched := Value doubling_hook\<rparr>)) = Some 2
   \<and> fst (getChatHistory example_chat
        (no_options\<lparr>sessionId := Value (js ''s1''), historyLength := Value 2,
           onChatHistoryFetched := Value doubling_hook\<rparr>) example_world)
       = join [nl] (map formatMessage
           [\<lparr>content = js ''a1'', role = Assistant, msg_metadata = Some []\<rparr>,
            \<lparr>content = js ''q2'', role = User, msg_metadata = None\<rparr>,
            \<lparr>content = js ''a1'', role = Assistant, msg_metadata = Some []\<rparr>,
            \<lparr>content = js ''q2'', role = User, msg_metadata = None\<rparr>])
   \<and> fst (getChatHistory example_chat
        (no_options\<lparr>sessionId := Value (js ''s1''), historyLength := Value 2,
           onChatHistoryFetched := Value doubling_hook\<rparr>) example_world)
       = js ''YOUR MESSAGE: a1\<newline>USER MESSAGE: q2\<newline>YOUR MESSAGE: a1\<newline>USER MESSAGE: q2''
   \<and> \<not> length
          [\<lparr>content = js ''a1'', role = Assistant, msg_metadata = Some []\<rparr>,
           \<lparr>content = js ''q2'', role = User, msg_metadata = None\<rparr>,
           \<lparr>content = js ''a1'', role = Assistant, msg_metadata = Some []\<rparr>,
           \<lparr>content = js ''q2'', role = User, msg_metadata = None\<rparr>] \<le> (2 :: nat)"
  by (simp add: eval_defs example_world_def doubling_hook_def js_def nl_def)

text \<open>
  Claim C10. The \<open>onChatHistoryFetched\<close> hook is called on a clone: an array other than
  the fetched one, holding the fetched messages. What the hook writes lands in the clone,
  and the fetched array still holds the fetched messages after the call. The formatted
  history is built from the array the hook returns when it returns one, and from the
  fetched messages when it returns nothing.
\<close>

theorem history_hook_gets_a_clone:
  assumes "get (onChatHistoryFetched opts) = Some f"
    and "fetched = readMessages (history w) (get (sessionId opts)) (get (historyLength opts))"
    and "fh = fst (fetchChatHistory rc opts w)"
  shows "clonedChatHistory fh \<noteq> originalChatHistory fh
       \<and> OnChatHistoryFetched fetched \<in> set (trace (snd (fetchChatHistory rc opts w)))
       \<and> cells (fh_heap fh) (clonedChatHistory fh) = fst (f fetched)
       \<and> cells (fh_heap fh) (originalChatHistory fh) = fetched
       \<and> fst (getChatHistory rc opts w) =
           join [nl] (map formatMessage (rev
             (case snd (f fetched) of
                ReturnsNothing \<Rightarrow> fetched
              | ReturnsArgument \<Rightarrow> fst (f fetched)
              | ReturnsArray v \<Rightarrow> v)))"
  using fetchChatHistory_hook [OF assms(1) assms(2), of rc]
  by (simp add: assms(3) getChatHistory_formatted)

theorem history_hook_gets_a_clone_witness:
  "get (onChatHistoryFetched
      (no_options\<lparr>sessionId := Value (js ''s1''), onChatHistoryFetched := Value clearing_hook\<rparr>))
     = Some clearing_hook
   \<and> readMessages (history example_world) (Some (js ''s1'')) None
       = [\<lparr>content = js ''q2'', role = User, msg_metadata = None\<rparr>,
          \<lparr>content = js ''a1'', role = Assistant, msg_metadata = Some []\<rparr>,
          \<lparr>content = js ''q1'', role = User, msg_metadata = None\<rparr>]
   \<and> cells (fh_heap (fst (fetchChatHistory example_chat
        (no_options\<lparr>sessionId := Value (js ''s1''), onChatHistoryFetched := Value clearing_hook\<rparr>)
        example_world))) 1 = []
   \<and> cells (fh_heap (fst (fetchChatHistory example_chat
        (no_options\<lparr>sessionId := Value (js ''s1''), onChatHistoryFetched := Value clearing_hook\<rparr>)
        example_world))) 0
       = [\<lparr>content = js ''q2'', role = User, msg_metadata = None\<rparr>,
          \<lparr>content = js ''a1'', role = Assistant, msg_metadata = Some []\<rparr>,
          \<lparr>content = js ''q1'', role = User, msg_metadata = None\<rparr>]
   \<and> fst (getChatHistory example_chat
        (no_options\<lparr>sessionId := Value (js ''s1''), onChatHistoryFetched := Value clearing_hook\<rparr>)
        example_world)
       = js ''USER MESSAGE: q1\<newline>YOUR MESSAGE: a1\<newline>USER MESSAGE: q2''"
proof -
  let ?o = "no_options\<lparr>sessionId := Value (js ''s1''), onChatHistoryFetched := Value clearing_hook\<rparr>"
  let ?fh = "fst (fetchChatHistory example_chat ?o example_world)"
  have h1: "get (onChatHistoryFetched ?o) = Some clearing_hook" by simp
  have j: "js ''s2'' \<noteq> js ''s1''" by (simp add: js_def)
  have r: "readMessages (history example_world) (get (sessionId ?o)) (get (historyLength ?o))
       = [\<lparr>content = js ''q2'', role = User, msg_metadata = None\<rparr>,
          \<lparr>content = js ''a1'', role = Assistant, msg_metadata = Some []\<rparr>,
          \<lparr>content = js ''q1'', role = User, msg_metadata = None\<rparr>]"
    by (simp add: readMessages_def newestFirst_def example_world_def j no_options_def)
  have a: "clonedChatHistory ?fh = 1" "originalChatHistory ?fh = 0"
    by (simp_all add: fetchChatHistory_def getMessages_def alloc_def structuredClone_def
          callHook_def overwrite_def empty_heap_def Let_def clearing_hook_def split: prod.splits)
  from history_hook_gets_a_clone [OF h1 r [symmetric] refl, of example_chat]
  show ?thesis
    using r unfolding a
    by (simp add: clearing_hook_def formatMessage_def js_def nl_def no_options_def)
qed

section \<open>The assistant turn\<close>

lemma checkRatelimit_history: "history (snd (checkRatelimit rc opts w)) = history w"
  by (simp add: checkRatelimit_def Let_def split: sum.splits option.splits)

lemma chatSteps_success:
  assumes "chatSteps K rc input options w = (Inr (opts, prompt), w5)"
  shows "opts = getOptionsWithDefaults K (rc_config rc) options
       \<and> history w5 = history w @ [(get (sessionId opts),
                                      \<lparr>content = input, role = User, msg_metadata = None\<rparr>)]"
proof -
  let ?opts = "getOptionsWithDefaults K (rc_config rc) options"
  obtain r1 w1 where c: "checkRatelimit rc ?opts w = (r1, w1)" by (cases "checkRatelimit rc ?opts w")
  with checkRatelimit_history [of rc ?opts w] have h1: "history w1 = history w" by simp
  let ?w2 = "addUserMessageToHistory input ?opts w1"
  have h2: "history ?w2 = history w @ [(get (sessionId ?opts),
                                      \<lparr>content = input, role = User, msg_metadata = None\<rparr>)]"
    by (simp add: addUserMessageToHistory_def h1)
  obtain r3 w3 where g: "getContext rc ?opts input ?w2 = (r3, w3)" by (cases "getContext rc ?opts input ?w2")
  with getContext_world [of rc ?opts input ?w2] have h3: "history w3 = history ?w2" by simp
  obtain fh w4 where gh: "getChatHistory rc ?opts w3 = (fh, w4)" by (cases "getChatHistory rc ?opts w3")
  with getChatHistory_history [of rc ?opts w3] have h4: "history w4 = history w3" by simp
  have h5: "\<And>ctx. history (snd (generatePrompt rc ?opts ctx (sanitizeQuestion input) fh w4)) = history w4"
    by (rule generatePrompt_history)
  from assms c g gh show ?thesis
    using h2 h3 h4 h5
    by (auto simp: chatSteps_def Let_def split: sum.splits prod.splits) (metis snd_conv)
qed

lemma onComplete_history:
  "history (onComplete rc opts out w) =
     history w @ [(get (sessionId opts),
                   \<lparr>content = out, role = Assistant, msg_metadata = get (metadata opts)\<rparr>)]"
  by (simp add: onComplete_def)

lemma chunkRead_history: "history (fold (chunkRead s) cs w) = history w"
  by (induction cs arbitrary: w) (simp_all add: chunkRead_def split: option.splits)

text \<open>
  Claim C8. When \<open>chat\<close> returns a completed text, the text is the model's full output and
  the store has grown by the user message and then one \<open>assistant\<close> message with that
  text and the resolved \<open>metadata\<close>. When it returns a stream, the store has grown by the
  user message only, and reading that stream to its end, whenever that is, fires the hook
  \<open>chat\<close> handed over and appends one \<open>assistant\<close> message with the concatenated chunks
  of the model and the resolved \<open>metadata\<close>.
\<close>

theorem assistant_turn_recorded:
  assumes "opts = getOptionsWithDefaults K (rc_config rc) options"
  shows "(chat K rc input options w = (Inr (Completed out), w') \<longrightarrow>
           (\<exists>prompt cs. rc_llm rc prompt = Inr cs \<and> out = concat cs)
           \<and> history w' =
               history w
               @ [(get (sessionId opts), \<lparr>content = input, role = User, msg_metadata = None\<rparr>),
                  (get (sessionId opts),
                   \<lparr>content = out, role = Assistant, msg_metadata = get (metadata opts)\<rparr>)])
       \<and> (chat K rc input options w = (Inr (Streaming s), w') \<longrightarrow>
           (\<exists>prompt. rc_llm rc prompt = Inr (chunks s))
           \<and> history w' =
               history w
               @ [(get (sessionId opts), \<lparr>content = input, role = User, msg_metadata = None\<rparr>)]
           \<and> history (consumeStream s w'') =
               history w''
               @ [(get (sessionId opts),
                   \<lparr>content = concat (chunks s), role = Assistant,
                    msg_metadata = get (metadata opts)\<rparr>)])"
proof (intro conjI impI)
  assume a: "chat K rc input options w = (Inr (Completed out), w')"
  then obtain o5 prompt w5 where s5: "chatSteps K rc input options w = (Inr (o5, prompt), w5)"
    and l: "callLLM rc o5 prompt (get (onChunk o5)) (onComplete rc o5) w5 = (Inr (Completed out), w')"
    by (auto simp: chat_def split: sum.splits prod.splits)
  from chatSteps_success [OF s5] assms have o: "o5 = opts"
    and h: "history w5 = history w @ [(get (sessionId opts),
              \<lparr>content = input, role = User, msg_metadata = None\<rparr>)]" by simp_all
  from l obtain cs where cs: "rc_llm rc prompt = Inr cs" "out = concat cs"
    "w' = onComplete rc o5 (concat cs) (emit (CallLLM prompt) w5)"
    by (auto simp: callLLM_def Let_def split: sum.splits if_splits)
  from cs show "\<exists>prompt cs. rc_llm rc prompt = Inr cs \<and> out = concat cs" by blast
  from cs o h show "history w' =
               history w
               @ [(get (sessionId opts), \<lparr>content = input, role = User, msg_metadata = None\<rparr>),
                  (get (sessionId opts),
                   \<lparr>content = out, role = Assistant, msg_metadata = get (metadata opts)\<rparr>)]"
    by (simp add: onComplete_history)
next
  assume a: "chat K rc input options w = (Inr (Streaming s), w')"
  then obtain o5 prompt w5 where s5: "chatSteps K rc input options w = (Inr (o5, prompt), w5)"
    and l: "callLLM rc o5 prompt (get (onChunk o5)) (onComplete rc o5) w5 = (Inr (Streaming s), w')"
    by (auto simp: chat_def split: sum.splits prod.splits)
  from chatSteps_success [OF s5] assms have o: "o5 = opts"
    and h: "history w5 = history w @ [(get (sessionId opts),
              \<lparr>content = input, role = User, msg_metadata = None\<rparr>)]" by simp_all
  from l obtain cs where cs: "rc_llm rc prompt = Inr cs" "w' = emit (CallLLM prompt) w5"
    "s = \<lparr>chunks = cs, whenChunk = get (onChunk o5), whenComplete = onComplete rc o5\<rparr>"
    by (auto simp: callLLM_def Let_def split: sum.splits if_splits)
  from cs show "\<exists>prompt. rc_llm rc prompt = Inr (chunks s)" by auto
  from cs h show "history w' =
               history w
               @ [(get (sessionId opts), \<lparr>content = input, role = User, msg_metadata = None\<rparr>)]"
    by simp
  from cs(3) o show "history (consumeStream s w'') =
               history w''
               @ [(get (sessionId opts),
                   \<lparr>content = concat (chunks s), role = Assistant,
                    msg_metadata = get (metadata opts)\<rparr>)]"
    by (simp add: consumeStream_def onComplete_history chunkRead_history)
qed

theorem assistant_turn_recorded_witness:
  "fst (chat example_constants example_chat (js ''hi'')
          (Some (no_options\<lparr>metadata := Value [(js ''k'', js ''v'')]\<rparr>)) empty_world)
     = Inr (Completed (js ''Ankara''))
   \<and> history (snd (chat example_constants example_chat (js ''hi'')
          (Some (no_options\<lparr>metadata := Value [(js ''k'', js ''v'')]\<rparr>)) empty_world))
     = [(Some (js ''s1''), \<lparr>content = js ''hi'', role = User, msg_metadata = None\<rparr>),
        (Some (js ''s1''), \<lparr>content = js ''Ankara'', role = Assistant,
                             msg_metadata = Some [(js ''k'', js ''v'')]\<rparr>)]
   \<and> fst (chat example_constants example_chat (js ''hi'')
          (Some (no_options\<lparr>streaming := Value True, onChunk := Value 3\<rparr>)) empty_world)
     = Inr (Streaming \<lparr>chunks = [js ''An'', js ''kara''], whenChunk = Some 3,
          whenComplete = onComplete example_chat
            (getOptionsWithDefaults example_constants (rc_config example_chat)
               (Some (no_options\<lparr>streaming := Value True, onChunk := Value 3\<rparr>)))\<rparr>)
   \<and> history (snd (chat example_constants example_chat (js ''hi'')
          (Some (no_options\<lparr>streaming := Value True, onChunk := Value 3\<rparr>)) empty_world))
     = [(Some (js ''s1''), \<lparr>content = js ''hi'', role = User, msg_metadata = None\<rparr>)]
   \<and> history (consumeStream
        \<lparr>chunks = [js ''An'', js ''kara''], whenChunk = Some 3,
          whenComplete = onComplete example_chat
            (getOptionsWithDefaults example_constants (rc_config example_chat)
               (Some (no_options\<lparr>streaming := Value True, onChunk := Value 3\<rparr>)))\<rparr>
        (snd (chat example_constants example_chat (js ''hi'')
          (Some (no_options\<lparr>streaming := Value True, onChunk := Value 3\<rparr>)) empty_world)))
     = [(Some (js ''s1''), \<lparr>content = js ''hi'', role = User, msg_metadata = None\<rparr>),
        (Some (js ''s1''), \<lparr>content = js ''Ankara'', role = Assistant, msg_metadata = None\<rparr>)]"
proof -
  let ?o1 = "Some (no_options\<lparr>metadata := Value [(js ''k'', js ''v'')]\<rparr>)"
  let ?o2 = "Some (no_options\<lparr>streaming := Value True, onChunk := Value 3\<rparr>)"
  let ?c1 = "chat example_constants example_chat (js ''hi'') ?o1 empty_world"
  let ?c2 = "chat example_constants example_chat (js ''hi'') ?o2 empty_world"
  let ?s = "\<lparr>chunks = [js ''An'', js ''kara''], whenChunk = Some 3,
          whenComplete = onComplete example_chat
            (getOptionsWithDefaults example_constants (rc_config example_chat) ?o2)\<rparr>"
  have f1: "fst ?c1 = Inr (Completed (js ''Ankara''))"
    by (simp add: eval_defs js_def)
  have f2: "fst ?c2 = Inr (Streaming ?s)"
    by (simp add: eval_defs)
  have e1: "?c1 = (Inr (Completed (js ''Ankara'')), snd ?c1)"
    using f1 by (simp add: prod_eq_iff)
  have e2: "?c2 = (Inr (Streaming ?s), snd ?c2)"
    using f2 by (simp only: prod_eq_iff fst_conv snd_conv simp_thms)
  have s: "get (sessionId (getOptionsWithDefaults example_constants (rc_config example_chat) ?o1))
             = Some (js ''s1'')"
      "get (metadata (getOptionsWithDefaults example_constants (rc_config example_chat) ?o1))
             = Some [(js ''k'', js ''v'')]"
      "get (sessionId (getOptionsWithDefaults example_constants (rc_config example_chat) ?o2))
             = Some (js ''s1'')"
      "get (metadata (getOptionsWithDefaults example_constants (rc_config example_chat) ?o2))
             = None"
    by (simp_all add: getOptionsWithDefaults_def appendDefaultsIfNeeded_def no_options_def Let_def
          example_chat_def example_config_def)
  from assistant_turn_recorded [OF refl, of example_constants example_chat "js ''hi''" ?o1
         empty_world "js ''Ankara''" "snd ?c1"] e1
  have r1: "history (snd ?c1)
     = [(Some (js ''s1''), \<lparr>content = js ''hi'', role = User, msg_metadata = None\<rparr>),
        (Some (js ''s1''), \<lparr>content = js ''Ankara'', role = Assistant,
                             msg_metadata = Some [(js ''k'', js ''v'')]\<rparr>)]"
    unfolding s by (simp add: empty_world_def)
  note t2 = assistant_turn_recorded [OF refl, THEN conjunct2, rule_format,
         of example_constants example_chat "js ''hi''" ?o2 empty_world ?s "snd ?c2" "snd ?c2", OF e2]
  from t2 have r2: "history (snd ?c2)
     = [(Some (js ''s1''), \<lparr>content = js ''hi'', role = User, msg_metadata = None\<rparr>)]"
    unfolding s by (simp add: empty_world_def)
  from t2 have "history (consumeStream ?s (snd ?c2))
     = history (snd ?c2)
       @ [(Some (js ''s1''), \<lparr>content = concat (chunks ?s), role = Assistant, msg_metadata = None\<rparr>)]"
    unfolding s by blast
  then have r3: "history (consumeStream ?s (snd ?c2))
     = [(Some (js ''s1''), \<lparr>content = js ''hi'', role = User, msg_metadata = None\<rparr>),
        (Some (js ''s1''), \<lparr>content = js ''Ankara'', role = Assistant, msg_metadata = None\<rparr>)]"
    unfolding r2 by (simp add: js_def)
  from f1 r1 f2 r2 r3 show ?thesis by blast
qed

end
